theory Spec2Isabelle
  imports Main
begin

unbundle bit_operations_syntax

section \<open>Data model\<close>

text \<open>
  Go's \<^verbatim>\<open>string\<close> and \<^verbatim>\<open>[]byte\<close> are byte sequences: a byte is a \<^typ>\<open>char\<close>
  (eight bits), a string is a \<^typ>\<open>string\<close>.  \<^verbatim>\<open>type Encoding int\<close> is an integer.
\<close>

type_synonym byte = char
type_synonym Encoding = int

text \<open>
  The errors built with \<^verbatim>\<open>fmt.Errorf\<close> in encoder.go, named as the specification's
  taxonomy names them:
  \<^item> \<open>EmptyEncodingName\<close>: "empty multibase encoding";
  \<^item> \<open>UnsupportedEncoding\<close>: "unsupported multibase encoding: ...";
  \<^item> \<open>UnsupportedAsWriter\<close>: "unsupported encoding as writer".
  \<open>ExternalError\<close> is an error value that comes from the caller's sink or from an
  external codec.
\<close>

datatype error =
    EmptyEncodingName
  | UnsupportedEncoding
  | UnsupportedAsWriter
  | ExternalError string

text \<open>A call either returns or panics; the panic carries the value given to \<^verbatim>\<open>panic\<close>.\<close>

datatype panic_value = panic_string string | panic_error error

datatype 'a outcome = Returns 'a | Panics panic_value

subsection \<open>Encoding identifiers and the registry tables\<close>

text \<open>
  Modelled from the spec: the constants \<^verbatim>\<open>Identity\<close>, \<^verbatim>\<open>Base2\<close>, ... are declared in the
  repository outside encoder.go, in a file that is not available.  Section 6 of the
  specification gives each identifier's tag character, and the identifier is the tag's
  code point.
\<close>

definition Identity :: Encoding where "Identity = 0"
definition Base2 :: Encoding where "Base2 = of_char CHR ''0''"
definition Base16 :: Encoding where "Base16 = of_char CHR ''f''"
definition Base16Upper :: Encoding where "Base16Upper = of_char CHR ''F''"
definition Base32 :: Encoding where "Base32 = of_char CHR ''b''"
definition Base32Upper :: Encoding where "Base32Upper = of_char CHR ''B''"
definition Base32pad :: Encoding where "Base32pad = of_char CHR ''c''"
definition Base32padUpper :: Encoding where "Base32padUpper = of_char CHR ''C''"
definition Base32hex :: Encoding where "Base32hex = of_char CHR ''v''"
definition Base32hexUpper :: Encoding where "Base32hexUpper = of_char CHR ''V''"
definition Base32hexPad :: Encoding where "Base32hexPad = of_char CHR ''t''"
definition Base32hexPadUpper :: Encoding where "Base32hexPadUpper = of_char CHR ''T''"
definition Base36 :: Encoding where "Base36 = of_char CHR ''k''"
definition Base36Upper :: Encoding where "Base36Upper = of_char CHR ''K''"
definition Base58BTC :: Encoding where "Base58BTC = of_char CHR ''z''"
definition Base58Flickr :: Encoding where "Base58Flickr = of_char CHR ''Z''"
definition Base64 :: Encoding where "Base64 = of_char CHR ''m''"
definition Base64url :: Encoding where "Base64url = of_char CHR ''u''"
definition Base64pad :: Encoding where "Base64pad = of_char CHR ''M''"
definition Base64urlPad :: Encoding where "Base64urlPad = of_char CHR ''U''"
definition Base256Emoji :: Encoding where "Base256Emoji = 0x1F680"

text \<open>
  Modelled from the spec: the table \<^verbatim>\<open>Encodings\<close> (name to identifier) is declared with
  the constants.  The names are the lower-case, hyphenless names of section 6.
\<close>

definition Encodings_table :: "(string \<times> Encoding) list" where
  "Encodings_table =
    [(''identity'', Identity),
     (''base2'', Base2),
     (''base16'', Base16),
     (''base16upper'', Base16Upper),
     (''base32'', Base32),
     (''base32upper'', Base32Upper),
     (''base32pad'', Base32pad),
     (''base32padupper'', Base32padUpper),
     (''base32hex'', Base32hex),
     (''base32hexupper'', Base32hexUpper),
     (''base32hexpad'', Base32hexPad),
     (''base32hexpadupper'', Base32hexPadUpper),
     (''base36'', Base36),
     (''base36upper'', Base36Upper),
     (''base58btc'', Base58BTC),
     (''base58flickr'', Base58Flickr),
     (''base64'', Base64),
     (''base64url'', Base64url),
     (''base64pad'', Base64pad),
     (''base64urlpad'', Base64urlPad),
     (''base256emoji'', Base256Emoji)]"

definition Encodings :: "string \<rightharpoonup> Encoding" where
  "Encodings = map_of Encodings_table"

text \<open>
  Modelled from the spec: the table \<^verbatim>\<open>EncodingToStr\<close> (identifier to name) is the
  reverse of \<^verbatim>\<open>Encodings\<close>; it is the table the validating factories consult.
\<close>

definition EncodingToStr :: "Encoding \<rightharpoonup> string" where
  "EncodingToStr = map_of (map (\<lambda>(name, base). (base, name)) Encodings_table)"

subsection \<open>Go's \<^verbatim>\<open>unicode/utf8\<close>, as far as \<^verbatim>\<open>EncoderByName\<close> calls it\<close>

text \<open>
  \<^verbatim>\<open>utf8.RuneCountInString\<close> and \<^verbatim>\<open>utf8.DecodeRuneInString\<close> belong to Go's standard
  library.  They are written out here after the library's code: the table \<^verbatim>\<open>first\<close>
  classifies a leading byte (low three bits: the length of the sequence; high four bits:
  the index of the range the second byte must lie in), an ill-formed or truncated
  sequence decodes to \<^verbatim>\<open>RuneError\<close> with width one.
\<close>

definition RuneError :: int where "RuneError = 0xFFFD"
definition RuneSelf :: nat where "RuneSelf = 0x80"

definition locb :: nat where "locb = 0x80"
definition hicb :: nat where "hicb = 0xBF"

definition utf8_xx :: nat where "utf8_xx = 0xF1"
definition utf8_as :: nat where "utf8_as = 0xF0"
definition utf8_s1 :: nat where "utf8_s1 = 0x02"
definition utf8_s2 :: nat where "utf8_s2 = 0x13"
definition utf8_s3 :: nat where "utf8_s3 = 0x03"
definition utf8_s4 :: nat where "utf8_s4 = 0x23"
definition utf8_s5 :: nat where "utf8_s5 = 0x34"
definition utf8_s6 :: nat where "utf8_s6 = 0x04"
definition utf8_s7 :: nat where "utf8_s7 = 0x44"

definition utf8_first :: "byte \<Rightarrow> nat" where
  "utf8_first b =
    (let c = (of_char b :: nat) in
     if c < 0x80 then utf8_as
     else if c < 0xC2 then utf8_xx
     else if c < 0xE0 then utf8_s1
     else if c = 0xE0 then utf8_s2
     else if c < 0xED then utf8_s3
     else if c = 0xED then utf8_s4
     else if c < 0xF0 then utf8_s3
     else if c = 0xF0 then utf8_s5
     else if c < 0xF4 then utf8_s6
     else if c = 0xF4 then utf8_s7
     else utf8_xx)"

definition acceptRanges :: "nat \<Rightarrow> nat \<times> nat" where
  "acceptRanges i =
    (if i = 0 then (locb, hicb)
     else if i = 1 then (0xA0, hicb)
     else if i = 2 then (locb, 0x9F)
     else if i = 3 then (0x90, hicb)
     else (locb, 0x8F))"

definition maskx :: int where "maskx = 0x3F"
definition mask2 :: int where "mask2 = 0x1F"
definition mask3 :: int where "mask3 = 0x0F"
definition mask4 :: int where "mask4 = 0x07"

definition DecodeRuneInString :: "string \<Rightarrow> int \<times> nat" where
  "DecodeRuneInString s =
    (let n = length s in
     if n < 1 then (RuneError, 0)
     else
       let s0 = s ! 0; x = utf8_first s0 in
       if x \<ge> utf8_as then (if x = utf8_as then (of_char s0, 1) else (RuneError, 1))
       else
         let sz = x mod 8; (lo, hi) = acceptRanges (x div 16) in
         if n < sz then (RuneError, 1)
         else
           let s1 = s ! 1 in
           if of_char s1 < lo \<or> hi < of_char s1 then (RuneError, 1)
           else if sz \<le> 2
           then (push_bit 6 (of_char s0 AND mask2) OR (of_char s1 AND maskx), 2)
           else
             let s2 = s ! 2 in
             if of_char s2 < locb \<or> hicb < of_char s2 then (RuneError, 1)
             else if sz \<le> 3
             then (push_bit 12 (of_char s0 AND mask3) OR push_bit 6 (of_char s1 AND maskx)
                     OR (of_char s2 AND maskx), 3)
             else
               let s3 = s ! 3 in
               if of_char s3 < locb \<or> hicb < of_char s3 then (RuneError, 1)
               else (push_bit 18 (of_char s0 AND mask4) OR push_bit 12 (of_char s1 AND maskx)
                       OR push_bit 6 (of_char s2 AND maskx) OR (of_char s3 AND maskx), 4))"

text \<open>
  One round of the loop of \<^verbatim>\<open>RuneCountInString\<close>: how far the index \<open>i\<close> advances.
\<close>

definition rune_width :: "string \<Rightarrow> nat \<Rightarrow> nat" where
  "rune_width s i =
    (let c = s ! i in
     if of_char c < RuneSelf then 1
     else
       let x = utf8_first c in
       if x = utf8_xx then 1
       else
         let size = x mod 8 in
         if i + size > length s then 1
         else
           let (lo, hi) = acceptRanges (x div 16) in
           if of_char (s ! (i + 1)) < lo \<or> hi < of_char (s ! (i + 1)) then 1
           else if size = 2 then size
           else if of_char (s ! (i + 2)) < locb \<or> hicb < of_char (s ! (i + 2)) then 1
           else if size = 3 then size
           else if of_char (s ! (i + 3)) < locb \<or> hicb < of_char (s ! (i + 3)) then 1
           else size)"

lemma utf8_first_size:
  "utf8_first c = utf8_xx \<or> utf8_first c = utf8_as \<or> utf8_first c mod 8 \<in> {2, 3, 4}"
  by (simp add: utf8_first_def Let_def utf8_xx_def utf8_as_def utf8_s1_def utf8_s2_def
      utf8_s3_def utf8_s4_def utf8_s5_def utf8_s6_def utf8_s7_def)

lemma utf8_first_ascii: "(of_char c :: nat) < 0x80 \<longleftrightarrow> utf8_first c = utf8_as"
  by (simp add: utf8_first_def Let_def utf8_xx_def utf8_as_def utf8_s1_def utf8_s2_def
      utf8_s3_def utf8_s4_def utf8_s5_def utf8_s6_def utf8_s7_def)

lemma rune_width_pos: "0 < rune_width s i"
  using utf8_first_size [of "s ! i"] utf8_first_ascii [of "s ! i"]
  by (auto simp add: rune_width_def Let_def RuneSelf_def split: prod.split)

function RuneCount_loop :: "string \<Rightarrow> nat \<Rightarrow> nat \<Rightarrow> nat" where
  "RuneCount_loop s i n =
    (if i < length s then RuneCount_loop s (i + rune_width s i) (n + 1) else n)"
  by pat_completeness auto
termination
  by (relation "measure (\<lambda>(s, i, n). length s - i)")
     (auto intro!: diff_less_mono2 simp add: rune_width_pos)

declare RuneCount_loop.simps [simp del]

definition RuneCountInString :: "string \<Rightarrow> nat" where
  "RuneCountInString s = RuneCount_loop s 0 0"

subsection \<open>The validated handle\<close>

record Encoder =
  enc :: Encoding

text \<open>
  \<^verbatim>\<open>NewEncoder\<close> returns a pair in Go: the handle and the error (\<open>None\<close> is \<^verbatim>\<open>nil\<close>).
\<close>

definition NewEncoder :: "Encoding \<Rightarrow> Encoder \<times> error option" where
  "NewEncoder base =
    (case EncodingToStr base of
       None \<Rightarrow> (\<lparr>enc = -1\<rparr>, Some UnsupportedEncoding)
     | Some _ \<Rightarrow> (\<lparr>enc = base\<rparr>, None))"

definition MustNewEncoder :: "Encoding \<Rightarrow> Encoder outcome" where
  "MustNewEncoder base =
    (case EncodingToStr base of
       None \<Rightarrow> Panics (panic_string ''Unsupported multibase encoding'')
     | Some _ \<Rightarrow> Returns \<lparr>enc = base\<rparr>)"

definition EncoderByName :: "string \<Rightarrow> Encoder \<times> error option" where
  "EncoderByName str =
    (if length str = 0 then (\<lparr>enc = -1\<rparr>, Some EmptyEncodingName)
     else
       let (base, ok) =
         (if RuneCountInString str = 1
          then (let (r, _) = DecodeRuneInString str; base = r
                in (base, EncodingToStr base \<noteq> None))
          else (case Encodings str of None \<Rightarrow> (0, False) | Some b \<Rightarrow> (b, True)))
       in if \<not> ok then (\<lparr>enc = -1\<rparr>, Some UnsupportedEncoding)
          else (\<lparr>enc = base\<rparr>, None))"

definition Encoding :: "Encoder \<Rightarrow> Encoding" where
  "Encoding p = enc p"

subsection \<open>Whole-buffer encoding through a handle\<close>

text \<open>
  Go's conversion \<^verbatim>\<open>string(rune)\<close>: the UTF-8 encoding of a code point, and of
  \<^verbatim>\<open>RuneError\<close> for a value that is not a Unicode scalar value.
\<close>

definition rune_bytes :: "int \<Rightarrow> string" where
  "rune_bytes r =
    (if r < 0x80 then [char_of r]
     else if r < 0x800 then
       [char_of (0xC0 OR drop_bit 6 r), char_of (0x80 OR (r AND maskx))]
     else if r < 0x10000 then
       [char_of (0xE0 OR drop_bit 12 r), char_of (0x80 OR (drop_bit 6 r AND maskx)),
        char_of (0x80 OR (r AND maskx))]
     else
       [char_of (0xF0 OR drop_bit 18 r), char_of (0x80 OR (drop_bit 12 r AND maskx)),
        char_of (0x80 OR (drop_bit 6 r AND maskx)), char_of (0x80 OR (r AND maskx))])"

definition string_of_rune :: "int \<Rightarrow> string" where
  "string_of_rune r =
    (if r < 0 \<or> 0x10FFFF < r \<or> (0xD800 \<le> r \<and> r \<le> 0xDFFF) then rune_bytes RuneError
     else rune_bytes r)"

text \<open>
  Modelled from the spec: the Codec Set is code of the repository outside encoder.go,
  which is not available.  By sections 2 and 3 of the specification it holds one codec
  for each identifier of the registry, and what a codec computes is outside the core: the
  whole-buffer encoders are the parameter \<open>body\<close>.
\<close>

definition codec_for ::
  "(Encoding \<Rightarrow> byte list \<Rightarrow> string) \<Rightarrow> Encoding \<rightharpoonup> (byte list \<Rightarrow> string)" where
  "codec_for body base =
    (if base \<in> set (map snd Encodings_table) then Some (body base) else None)"

text \<open>
  Modelled from the spec: the dispatcher \<^verbatim>\<open>Encode\<close> is code of the repository outside
  encoder.go, which is not available.  By section 4.3 of the specification it looks the
  codec up, fails with \<open>UnsupportedEncoding\<close> if there is none, and otherwise returns the
  tag followed by the encoded body, as text.
\<close>

definition Encode ::
  "(Encoding \<Rightarrow> byte list \<Rightarrow> string) \<Rightarrow> Encoding \<Rightarrow> byte list \<Rightarrow> string \<times> error option" where
  "Encode body base data =
    (case codec_for body base of
       None \<Rightarrow> ([], Some UnsupportedEncoding)
     | Some encode \<Rightarrow> (string_of_rune base @ encode data, None))"

text \<open>
  \<^verbatim>\<open>Encoder.Encode\<close> calls the dispatcher and panics with its error, if there is one.
\<close>

definition Encoder_Encode ::
  "(Encoding \<Rightarrow> byte list \<Rightarrow> string) \<Rightarrow> Encoder \<Rightarrow> byte list \<Rightarrow> string outcome" where
  "Encoder_Encode body p data =
    (let (str, err) = Encode body (enc p) data in
     case err of
       Some e \<Rightarrow> Panics (panic_error e)
     | None \<Rightarrow> Returns str)"

section \<open>The streaming writer\<close>

subsection \<open>Objects behind an interface\<close>

text \<open>
  An \<^verbatim>\<open>io.Writer\<close> is an object: its methods act on state that lives outside the value
  holding the reference.  The model keeps that state in a store \<open>'s\<close> and an object is
  the table of its methods over the store.  \<open>Write\<close> returns Go's pair \<open>(n, err)\<close>;
  \<open>Closer\<close> is the object's \<^verbatim>\<open>Close\<close> method when the object satisfies \<^verbatim>\<open>io.Closer\<close>,
  which is what the type assertion in \<^verbatim>\<open>encoderWriter.Close\<close> asks.
\<close>

record 's io_Writer =
  Write :: "byte list \<Rightarrow> 's \<Rightarrow> (int \<times> error option) \<times> 's"
  Closer :: "('s \<Rightarrow> error option \<times> 's) option"

text \<open>
  The encodings handed to the external constructors.  The eight base32 values are
  variables of the repository declared outside encoder.go, the four base64 values are
  Go's.  Here they are names; the external package gives them their meaning.
\<close>

datatype b32_Encoding =
    base32StdLowerNoPad | base32StdUpperNoPad | base32HexLowerNoPad | base32HexUpperNoPad
  | base32StdLowerPad | base32StdUpperPad | base32HexLowerPad | base32HexUpperPad

datatype base64_Encoding = StdEncoding | URLEncoding | RawURLEncoding | RawStdEncoding

text \<open>
  The external constructors \<^verbatim>\<open>hex.NewEncoder\<close>, \<^verbatim>\<open>b32.NewEncoder\<close> and
  \<^verbatim>\<open>base64.NewEncoder\<close>: each allocates an incremental encoder (a change of the store)
  that writes to the writer it is given, and returns the object.
\<close>

record 's codecs =
  hex_NewEncoder :: "'s io_Writer \<Rightarrow> 's \<Rightarrow> 's io_Writer \<times> 's"
  b32_NewEncoder :: "b32_Encoding \<Rightarrow> 's io_Writer \<Rightarrow> 's \<Rightarrow> 's io_Writer \<times> 's"
  base64_NewEncoder :: "base64_Encoding \<Rightarrow> 's io_Writer \<Rightarrow> 's \<Rightarrow> 's io_Writer \<times> 's"

subsection \<open>\<^verbatim>\<open>encoderWriter\<close>\<close>

text \<open>\<open>processor = None\<close> is the \<^verbatim>\<open>nil\<close> interface value.\<close>

record 's encoderWriter =
  ew_enc :: Encoding
  out :: "'s io_Writer"
  headerWritten :: bool
  processor :: "'s io_Writer option"

definition with_processor ::
  "'s encoderWriter \<Rightarrow> 's io_Writer \<times> 's \<Rightarrow> 's encoderWriter \<times> 's" where
  "with_processor ew r = (ew\<lparr>processor := Some (fst r)\<rparr>, snd r)"

text \<open>
  \<^verbatim>\<open>newEncoderWriter\<close> returns a pointer to the struct it builds.  No method has a
  pointer receiver, so nothing ever writes to that struct after construction: the model
  returns the struct's value, which is what every later method call copies.
\<close>

definition newEncoderWriter ::
  "'s codecs \<Rightarrow> Encoding \<Rightarrow> 's io_Writer \<Rightarrow> 's \<Rightarrow> 's encoderWriter \<times> 's" where
  "newEncoderWriter lib e w s =
    (let ew = \<lparr>ew_enc = e, out = w, headerWritten = False, processor = None\<rparr> in
     if e = Identity then (ew\<lparr>processor := Some w\<rparr>, s)
     else if e = Base16 then with_processor ew (hex_NewEncoder lib w s)
     else if e = Base32 then with_processor ew (b32_NewEncoder lib base32StdLowerNoPad w s)
     else if e = Base32Upper then with_processor ew (b32_NewEncoder lib base32StdUpperNoPad w s)
     else if e = Base32hex then with_processor ew (b32_NewEncoder lib base32HexLowerNoPad w s)
     else if e = Base32hexUpper then with_processor ew (b32_NewEncoder lib base32HexUpperNoPad w s)
     else if e = Base32pad then with_processor ew (b32_NewEncoder lib base32StdLowerPad w s)
     else if e = Base32padUpper then with_processor ew (b32_NewEncoder lib base32StdUpperPad w s)
     else if e = Base32hexPad then with_processor ew (b32_NewEncoder lib base32HexLowerPad w s)
     else if e = Base32hexPadUpper then with_processor ew (b32_NewEncoder lib base32HexUpperPad w s)
     else if e = Base64pad then with_processor ew (base64_NewEncoder lib StdEncoding w s)
     else if e = Base64urlPad then with_processor ew (base64_NewEncoder lib URLEncoding w s)
     else if e = Base64url then with_processor ew (base64_NewEncoder lib RawURLEncoding w s)
     else if e = Base64 then with_processor ew (base64_NewEncoder lib RawStdEncoding w s)
     else if e \<in> {Base2, Base16Upper, Base36, Base36Upper, Base58BTC, Base58Flickr, Base256Emoji}
     then (ew, s)
     else (ew, s))"

definition Encoder_Writer ::
  "'s codecs \<Rightarrow> Encoder \<Rightarrow> 's io_Writer \<Rightarrow> 's \<Rightarrow> 's encoderWriter \<times> 's" where
  "Encoder_Writer lib p w s = newEncoderWriter lib (enc p) w s"

text \<open>
  \<^verbatim>\<open>func (ew encoderWriter) Write(p []byte)\<close> has a value receiver: \<open>ew\<close> is the call's
  own copy of the struct.  The assignment \<^verbatim>\<open>ew.headerWritten = true\<close> changes that copy,
  here the local \<open>ew'\<close>, and the copy is gone when the call returns.  The result is
  therefore Go's pair \<open>(n, err)\<close> and the store; there is no updated struct to return.
  \<^verbatim>\<open>byte(ew.enc)\<close> keeps the low eight bits, as \<^const>\<open>char_of\<close> does.
\<close>

definition encoderWriter_Write ::
  "'s encoderWriter \<Rightarrow> byte list \<Rightarrow> 's \<Rightarrow> (int \<times> error option) \<times> 's" where
  "encoderWriter_Write ew p s =
    (if processor ew = None then ((-1, Some UnsupportedAsWriter), s)
     else if \<not> headerWritten ew then
       (let ((_, err), s1) = Write (out ew) [char_of (ew_enc ew)] s in
        if err \<noteq> None then ((0, err), s1)
        else
          let ew' = ew\<lparr>headerWritten := True\<rparr> in
          Write (the (processor ew')) p s1)
     else Write (the (processor ew)) p s)"

definition encoderWriter_Close :: "'s encoderWriter \<Rightarrow> 's \<Rightarrow> error option \<times> 's" where
  "encoderWriter_Close ew s =
    (case processor ew of
       None \<Rightarrow> (None, s)
     | Some closer \<Rightarrow>
         (case Closer closer of
            Some close \<Rightarrow> close s
          | None \<Rightarrow> (None, s)))"

text \<open>
  A caller's sequence of \<^verbatim>\<open>Write\<close> calls on one writer, stopping at the first error as
  a caller does; the result lists what each call returned.
\<close>

fun write_all ::
  "'s encoderWriter \<Rightarrow> byte list list \<Rightarrow> 's \<Rightarrow> (int \<times> error option) list \<times> 's" where
  "write_all ew [] s = ([], s)"
| "write_all ew (p # ps) s =
    (let (r, s1) = encoderWriter_Write ew p s in
     if snd r \<noteq> None then ([r], s1)
     else let (rs, s2) = write_all ew ps s1 in (r # rs, s2))"

text \<open>
  A caller's whole use of a writer: construct it over the sink, write the chunks in
  order, close it.  The result is what the calls returned and the final store.
\<close>

definition stream_chunks ::
  "'s codecs \<Rightarrow> Encoding \<Rightarrow> 's io_Writer \<Rightarrow> byte list list \<Rightarrow> 's
    \<Rightarrow> ((int \<times> error option) list \<times> error option) \<times> 's" where
  "stream_chunks lib e w chunks s =
    (let (ew, s0) = newEncoderWriter lib e w s;
         (rs, s1) = write_all ew chunks s0;
         (cerr, s2) = encoderWriter_Close ew s1
     in ((rs, cerr), s2))"

subsection \<open>Sinks\<close>

text \<open>
  The caller's sink.  The store records every payload handed to the sink's \<^verbatim>\<open>Write\<close>,
  in order (\<open>log\<close>), whether the sink's own \<^verbatim>\<open>Close\<close> was called, and the state of the
  incremental encoder wrapped around the sink (\<open>codec\<close>).  What a sink answers is its
  \<open>reply\<close>, a function of what it has received so far and of the payload; \<open>closing\<close> is
  the result of the sink's \<^verbatim>\<open>Close\<close> when the sink has one.
\<close>

record 'c store =
  log :: "byte list list"
  closed :: bool
  codec :: 'c

definition sink ::
  "(byte list list \<Rightarrow> byte list \<Rightarrow> int \<times> error option) \<Rightarrow> error option option
    \<Rightarrow> ('c store) io_Writer" where
  "sink reply closing =
    \<lparr>Write = (\<lambda>p s. (reply (log s) p, s\<lparr>log := log s @ [p]\<rparr>)),
     Closer = map_option (\<lambda>r s. (r, s\<lparr>closed := True\<rparr>)) closing\<rparr>"

text \<open>A sink like \<^verbatim>\<open>bytes.Buffer\<close>: it takes every payload whole and cannot be closed.\<close>

definition bytes_Buffer :: "('c store) io_Writer" where
  "bytes_Buffer = sink (\<lambda>h p. (int (length p), None)) None"

text \<open>A sink that refuses every payload with the same error.\<close>

definition broken_sink :: "error \<Rightarrow> ('c store) io_Writer" where
  "broken_sink e = sink (\<lambda>h p. (0, Some e)) None"

definition sink_bytes :: "'c store \<Rightarrow> byte list" where
  "sink_bytes s = concat (log s)"

definition empty_store :: "'c \<Rightarrow> 'c store" where
  "empty_store c = \<lparr>log = [], closed = False, codec = c\<rparr>"

definition streamable :: "Encoding list" where
  "streamable =
    [Identity, Base16, Base32, Base32Upper, Base32hex, Base32hexUpper, Base32pad,
     Base32padUpper, Base32hexPad, Base32hexPadUpper, Base64pad, Base64urlPad, Base64url,
     Base64]"

definition not_streamable :: "Encoding list" where
  "not_streamable =
    [Base2, Base16Upper, Base36, Base36Upper, Base58BTC, Base58Flickr, Base256Emoji]"

subsection \<open>The external incremental encoders\<close>

text \<open>
  A model of the encoders behind \<^verbatim>\<open>hex.NewEncoder\<close>, \<^verbatim>\<open>base64.NewEncoder\<close> and
  \<^verbatim>\<open>b32.NewEncoder\<close>.  They are not code of this repository; the theorems about the
  writer hold for any \<^typ>\<open>'s codecs\<close>, and this model serves to run the writer on
  concrete inputs.  It follows Go's \<^verbatim>\<open>encoding/hex\<close>, \<^verbatim>\<open>encoding/base64\<close> and
  the base32 package \<^verbatim>\<open>go-base32\<close>: an encoder keeps a sticky error (\<open>e_err\<close>), the bytes
  of an incomplete group (\<open>e_buf\<close>) and an output buffer of 1024 bytes (\<open>e_out\<close>) into
  which it encodes before it writes; it encodes complete groups as they come and flushes
  the incomplete group when closed.
\<close>

record enc_state =
  e_err :: "error option"
  e_buf :: "byte list"
  e_out :: "byte list"

definition fresh :: enc_state where
  "fresh = \<lparr>e_err = None, e_buf = [], e_out = replicate 1024 (CHR 0x00)\<rparr>"

text \<open>
  What the output buffer holds after \<^verbatim>\<open>Encode(e.out[0:], src)\<close> has put the characters
  \<open>cs\<close> at its start: the rest of the buffer keeps what it held.
\<close>

definition encode_into :: "byte list \<Rightarrow> byte list \<Rightarrow> byte list" where
  "encode_into cs buffer = cs @ drop (length cs) buffer"

text \<open>Go's integer division truncates toward zero.\<close>

definition quot :: "int \<Rightarrow> int \<Rightarrow> int" where
  "quot a b = sgn a * sgn b * (\<bar>a\<bar> div \<bar>b\<bar>)"

definition hextable :: string where
  "hextable = ''0123456789abcdef''"

definition hex_Encode :: "byte list \<Rightarrow> byte list" where
  "hex_Encode src =
    concat (map (\<lambda>v. [hextable ! (of_char v div 16), hextable ! (of_char v mod 16)]) src)"

function hex_Write ::
  "(enc_state store) io_Writer \<Rightarrow> byte list \<Rightarrow> int \<Rightarrow> enc_state store
    \<Rightarrow> (int \<times> error option) \<times> enc_state store" where
  "hex_Write w p n s =
    (if length p > 0 \<and> e_err (codec s) = None then
       let chunkSize = (if length p < 512 then length p else 512);
           r = Write w (hex_Encode (take chunkSize p)) s;
           s1 = (snd r)\<lparr>codec := (codec s)\<lparr>e_err := snd (fst r)\<rparr>\<rparr>
       in hex_Write w (drop chunkSize p) (n + quot (fst (fst r)) 2) s1
     else ((n, e_err (codec s)), s))"
  by pat_completeness auto
termination
  by (relation "measure (\<lambda>(w, p, n, s). length p)") auto

declare hex_Write.simps [simp del]

definition go_hex_NewEncoder ::
  "(enc_state store) io_Writer \<Rightarrow> enc_state store
    \<Rightarrow> (enc_state store) io_Writer \<times> enc_state store" where
  "go_hex_NewEncoder w s =
    (\<lparr>Write = (\<lambda>p. hex_Write w p 0), Closer = None\<rparr>, s\<lparr>codec := fresh\<rparr>)"

definition encodeStd :: string where
  "encodeStd = ''ABCDEFGHIJKLMNOPQRSTUVWXYZabcdefghijklmnopqrstuvwxyz0123456789+/''"

definition encodeURL :: string where
  "encodeURL = ''ABCDEFGHIJKLMNOPQRSTUVWXYZabcdefghijklmnopqrstuvwxyz0123456789-_''"

fun base64_alphabet :: "base64_Encoding \<Rightarrow> string" where
  "base64_alphabet StdEncoding = encodeStd"
| "base64_alphabet URLEncoding = encodeURL"
| "base64_alphabet RawURLEncoding = encodeURL"
| "base64_alphabet RawStdEncoding = encodeStd"

fun base64_padding :: "base64_Encoding \<Rightarrow> byte option" where
  "base64_padding StdEncoding = Some CHR ''=''"
| "base64_padding URLEncoding = Some CHR ''=''"
| "base64_padding RawURLEncoding = None"
| "base64_padding RawStdEncoding = None"

text \<open>The padding characters that fill a group up to \<open>k\<close> characters.\<close>

definition pad_to :: "byte option \<Rightarrow> nat \<Rightarrow> byte list \<Rightarrow> byte list" where
  "pad_to pad k cs = (case pad of None \<Rightarrow> cs | Some c \<Rightarrow> cs @ replicate (k - length cs) c)"

text \<open>The digits of base \<open>2 ^ bits\<close> of a value, \<open>k\<close> of them, the most significant first.\<close>

definition digits :: "nat \<Rightarrow> nat \<Rightarrow> nat \<Rightarrow> nat list" where
  "digits bits k val = map (\<lambda>j. drop_bit (bits * (k - 1 - j)) val mod 2 ^ bits) [0..<k]"

definition be_value :: "byte list \<Rightarrow> nat" where
  "be_value g = foldl (\<lambda>a b. a * 256 + of_char b) 0 g"

definition base64_group :: "base64_Encoding \<Rightarrow> byte list \<Rightarrow> byte list" where
  "base64_group e g =
    (let val = be_value (g @ replicate (3 - length g) (CHR 0x00));
         k = (if length g = 1 then 2 else if length g = 2 then 3 else 4)
     in pad_to (base64_padding e) 4 (map (\<lambda>d. base64_alphabet e ! d) (take k (digits 6 4 val))))"

fun base64_Encode :: "base64_Encoding \<Rightarrow> byte list \<Rightarrow> byte list" where
  "base64_Encode e (a # b # c # rest) = base64_group e [a, b, c] @ base64_Encode e rest"
| "base64_Encode e [] = []"
| "base64_Encode e g = base64_group e g"

text \<open>The loop over the complete groups, and the fringe left for the next call.\<close>

function interior ::
  "(byte list \<Rightarrow> byte list) \<Rightarrow> nat \<Rightarrow> nat \<Rightarrow> (enc_state store) io_Writer \<Rightarrow> byte list \<Rightarrow> int
    \<Rightarrow> enc_state store \<Rightarrow> (int \<times> error option) \<times> enc_state store" where
  "interior encode g cap w p n s =
    (if g > 0 \<and> length p \<ge> g then
       let nn = (if cap > length p then length p - length p mod g else cap);
           c = (codec s)\<lparr>e_out := encode_into (encode (take nn p)) (e_out (codec s))\<rparr>;
           r = Write w (encode (take nn p)) s
       in if snd (fst r) \<noteq> None \<or> nn = 0
          then ((n, snd (fst r)), (snd r)\<lparr>codec := c\<lparr>e_err := snd (fst r)\<rparr>\<rparr>)
          else interior encode g cap w (drop nn p) (n + int nn) ((snd r)\<lparr>codec := c\<rparr>)
     else ((n + int (length p), None), s\<lparr>codec := (codec s)\<lparr>e_buf := p\<rparr>\<rparr>))"
  by pat_completeness auto
termination
  by (relation "measure (\<lambda>(encode, g, cap, w, p, n, s). length p)") auto

declare interior.simps [simp del]

definition group_Write ::
  "(byte list \<Rightarrow> byte list) \<Rightarrow> nat \<Rightarrow> nat \<Rightarrow> (enc_state store) io_Writer \<Rightarrow> byte list
    \<Rightarrow> enc_state store \<Rightarrow> (int \<times> error option) \<times> enc_state store" where
  "group_Write encode g cap w p s =
    (if e_err (codec s) \<noteq> None then ((0, e_err (codec s)), s)
     else if length (e_buf (codec s)) > 0 then
       let i = min (length p) (g - length (e_buf (codec s)));
           buf = e_buf (codec s) @ take i p
       in if length buf < g
          then ((int i, None), s\<lparr>codec := (codec s)\<lparr>e_buf := buf\<rparr>\<rparr>)
          else
            let c = (codec s)\<lparr>e_out := encode_into (encode buf) (e_out (codec s))\<rparr>;
                r = Write w (encode buf) s in
            if snd (fst r) \<noteq> None
            then ((int i, snd (fst r)),
                  (snd r)\<lparr>codec := c\<lparr>e_err := snd (fst r), e_buf := buf\<rparr>\<rparr>)
            else interior encode g cap w (drop i p) (int i)
                   ((snd r)\<lparr>codec := c\<lparr>e_buf := []\<rparr>\<rparr>)
     else interior encode g cap w p 0 s)"

text \<open>
  \<^verbatim>\<open>Close\<close> of the base64 encoder: the incomplete group is encoded into the output buffer
  and exactly its encoded characters are written.
\<close>

definition group_Close ::
  "(byte list \<Rightarrow> byte list) \<Rightarrow> (enc_state store) io_Writer \<Rightarrow> enc_state store
    \<Rightarrow> error option \<times> enc_state store" where
  "group_Close encode w s =
    (if e_err (codec s) = None \<and> length (e_buf (codec s)) > 0 then
       let cs = encode (e_buf (codec s));
           r = Write w cs s
       in (snd (fst r),
           (snd r)\<lparr>codec := \<lparr>e_err = snd (fst r), e_buf = [],
                              e_out = encode_into cs (e_out (codec s))\<rparr>\<rparr>)
     else (e_err (codec s), s))"

text \<open>
  \<^verbatim>\<open>Close\<close> of the base32 encoder of \<^verbatim>\<open>go-base32\<close>: the incomplete group is encoded
  into the output buffer and the first eight bytes of the buffer are written, whatever
  the padding.  Without padding the group encodes to fewer than eight characters, and the
  bytes after them are what the buffer held before.
\<close>

definition b32_Close ::
  "(byte list \<Rightarrow> byte list) \<Rightarrow> (enc_state store) io_Writer \<Rightarrow> enc_state store
    \<Rightarrow> error option \<times> enc_state store" where
  "b32_Close encode w s =
    (if e_err (codec s) = None \<and> length (e_buf (codec s)) > 0 then
       let buffer = encode_into (encode (e_buf (codec s))) (e_out (codec s));
           r = Write w (take 8 buffer) s
       in (snd (fst r),
           (snd r)\<lparr>codec := \<lparr>e_err = snd (fst r), e_buf = [], e_out = buffer\<rparr>\<rparr>)
     else (e_err (codec s), s))"

definition go_base64_NewEncoder ::
  "base64_Encoding \<Rightarrow> (enc_state store) io_Writer \<Rightarrow> enc_state store
    \<Rightarrow> (enc_state store) io_Writer \<times> enc_state store" where
  "go_base64_NewEncoder e w s =
    (\<lparr>Write = group_Write (base64_Encode e) 3 768 w,
      Closer = Some (group_Close (base64_Encode e) w)\<rparr>,
     s\<lparr>codec := fresh\<rparr>)"

definition encodeStdLower :: string where
  "encodeStdLower = ''abcdefghijklmnopqrstuvwxyz234567''"
definition encodeStdUpper :: string where
  "encodeStdUpper = ''ABCDEFGHIJKLMNOPQRSTUVWXYZ234567''"
definition encodeHexLower :: string where
  "encodeHexLower = ''0123456789abcdefghijklmnopqrstuv''"
definition encodeHexUpper :: string where
  "encodeHexUpper = ''0123456789ABCDEFGHIJKLMNOPQRSTUV''"

fun b32_alphabet :: "b32_Encoding \<Rightarrow> string" where
  "b32_alphabet base32StdLowerNoPad = encodeStdLower"
| "b32_alphabet base32StdUpperNoPad = encodeStdUpper"
| "b32_alphabet base32HexLowerNoPad = encodeHexLower"
| "b32_alphabet base32HexUpperNoPad = encodeHexUpper"
| "b32_alphabet base32StdLowerPad = encodeStdLower"
| "b32_alphabet base32StdUpperPad = encodeStdUpper"
| "b32_alphabet base32HexLowerPad = encodeHexLower"
| "b32_alphabet base32HexUpperPad = encodeHexUpper"

fun b32_padding :: "b32_Encoding \<Rightarrow> byte option" where
  "b32_padding base32StdLowerPad = Some CHR ''=''"
| "b32_padding base32StdUpperPad = Some CHR ''=''"
| "b32_padding base32HexLowerPad = Some CHR ''=''"
| "b32_padding base32HexUpperPad = Some CHR ''=''"
| "b32_padding _ = None"

definition b32_group :: "b32_Encoding \<Rightarrow> byte list \<Rightarrow> byte list" where
  "b32_group e g =
    (let val = be_value (g @ replicate (5 - length g) (CHR 0x00));
         k = (if length g = 1 then 2 else if length g = 2 then 4 else if length g = 3 then 5
              else if length g = 4 then 7 else 8)
     in pad_to (b32_padding e) 8 (map (\<lambda>d. b32_alphabet e ! d) (take k (digits 5 8 val))))"

fun b32_Encode :: "b32_Encoding \<Rightarrow> byte list \<Rightarrow> byte list" where
  "b32_Encode e (a # b # c # d # f # rest) = b32_group e [a, b, c, d, f] @ b32_Encode e rest"
| "b32_Encode e [] = []"
| "b32_Encode e g = b32_group e g"

definition go_b32_NewEncoder ::
  "b32_Encoding \<Rightarrow> (enc_state store) io_Writer \<Rightarrow> enc_state store
    \<Rightarrow> (enc_state store) io_Writer \<times> enc_state store" where
  "go_b32_NewEncoder e w s =
    (\<lparr>Write = group_Write (b32_Encode e) 5 640 w,
      Closer = Some (b32_Close (b32_Encode e) w)\<rparr>,
     s\<lparr>codec := fresh\<rparr>)"

definition go_codecs :: "(enc_state store) codecs" where
  "go_codecs =
    \<lparr>hex_NewEncoder = go_hex_NewEncoder,
     b32_NewEncoder = go_b32_NewEncoder,
     base64_NewEncoder = go_base64_NewEncoder\<rparr>"

text \<open>
  The whole-buffer encoders of the same packages, for the identifiers that have an
  incremental encoder; the identity codec returns its input.  The codecs of the other
  identifiers are not modelled, and nothing is said of what they return.
\<close>

definition go_body :: "Encoding \<Rightarrow> byte list \<Rightarrow> string" where
  "go_body e data =
    (if e = Identity then data
     else if e = Base16 then hex_Encode data
     else if e = Base32 then b32_Encode base32StdLowerNoPad data
     else if e = Base32Upper then b32_Encode base32StdUpperNoPad data
     else if e = Base32hex then b32_Encode base32HexLowerNoPad data
     else if e = Base32hexUpper then b32_Encode base32HexUpperNoPad data
     else if e = Base32pad then b32_Encode base32StdLowerPad data
     else if e = Base32padUpper then b32_Encode base32StdUpperPad data
     else if e = Base32hexPad then b32_Encode base32HexLowerPad data
     else if e = Base32hexPadUpper then b32_Encode base32HexUpperPad data
     else if e = Base64pad then base64_Encode StdEncoding data
     else if e = Base64urlPad then base64_Encode URLEncoding data
     else if e = Base64url then base64_Encode RawURLEncoding data
     else if e = Base64 then base64_Encode RawStdEncoding data
     else undefined)"

section \<open>Theorems\<close>

lemmas Encoding_defs =
  Identity_def Base2_def Base16_def Base16Upper_def Base32_def Base32Upper_def
  Base32pad_def Base32padUpper_def Base32hex_def Base32hexUpper_def Base32hexPad_def
  Base32hexPadUpper_def Base36_def Base36Upper_def Base58BTC_def Base58Flickr_def
  Base64_def Base64url_def Base64pad_def Base64urlPad_def Base256Emoji_def

subsection \<open>Facts about the tables and the constructor\<close>

lemma registered_iff: "EncodingToStr base \<noteq> None \<longleftrightarrow> base \<in> set (map snd Encodings_table)"
proof -
  have "fst ` set (map (\<lambda>(name, base). (base, name)) xs) = snd ` set xs"
    for xs :: "(string \<times> Encoding) list"
    by force
  then have "EncodingToStr base = None \<longleftrightarrow> base \<notin> snd ` set Encodings_table"
    unfolding EncodingToStr_def map_of_eq_None_iff by simp
  then show ?thesis by (simp del: not_None_eq)
qed

lemma Encodings_registered: "Encodings str = Some b \<Longrightarrow> EncodingToStr b \<noteq> None"
  unfolding registered_iff Encodings_def by (force dest: map_of_SomeD)

lemma Encode_registered:
  "EncodingToStr base \<noteq> None \<Longrightarrow>
   Encode body base data = (string_of_rune base @ body base data, None)"
  using registered_iff [of base] by (simp add: Encode_def codec_for_def del: not_None_eq)

lemma streamable_registered: "e \<in> set streamable \<Longrightarrow> EncodingToStr e \<noteq> None"
  unfolding registered_iff by (auto simp add: streamable_def Encodings_table_def)

lemma streamable_tag: "e \<in> set streamable \<Longrightarrow> string_of_rune e = [char_of e]"
  by (auto simp add: streamable_def Encoding_defs string_of_rune_def rune_bytes_def)

lemma string_of_rune_not_empty: "string_of_rune r \<noteq> []"
  by (simp add: string_of_rune_def rune_bytes_def)

lemma newEncoderWriter_not_streamable:
  "e \<notin> set streamable \<Longrightarrow>
   newEncoderWriter lib e w s =
     (\<lparr>ew_enc = e, out = w, headerWritten = False, processor = None\<rparr>, s)"
  by (simp add: newEncoderWriter_def streamable_def)

lemma not_streamable_disjoint: "e \<in> set not_streamable \<Longrightarrow> e \<notin> set streamable"
  by (auto simp add: not_streamable_def streamable_def Encoding_defs)

lemma newEncoderWriter_fields:
  "ew_enc (fst (newEncoderWriter lib e w s)) = e \<and>
   out (fst (newEncoderWriter lib e w s)) = w \<and>
   \<not> headerWritten (fst (newEncoderWriter lib e w s))"
  by (simp add: newEncoderWriter_def with_processor_def Let_def)

lemma newEncoderWriter_streamable:
  "e \<in> set streamable \<Longrightarrow> processor (fst (newEncoderWriter lib e w s)) \<noteq> None"
  by (auto simp add: newEncoderWriter_def with_processor_def Let_def streamable_def)

lemma newEncoderWriter_Identity:
  "newEncoderWriter lib Identity w s =
     (\<lparr>ew_enc = Identity, out = w, headerWritten = False, processor = Some w\<rparr>, s)"
  by (simp add: newEncoderWriter_def)

text \<open>
  What a \<^verbatim>\<open>Write\<close> on a writer as constructed does, in any store: the tag goes to the
  sink first, and the payload goes to the processor if the sink took the tag.
\<close>

lemma Write_as_constructed:
  assumes "e \<in> set streamable"
  shows "encoderWriter_Write (fst (newEncoderWriter lib e w s0)) p s =
    (let ((_, err), s1) = Write w [char_of e] s in
     if err \<noteq> None then ((0, err), s1)
     else Write (the (processor (fst (newEncoderWriter lib e w s0)))) p s1)"
  using newEncoderWriter_streamable [OF assms, of lib w s0] newEncoderWriter_fields [of lib e w s0]
  by (auto simp add: encoderWriter_Write_def Let_def split: prod.splits)

lemma char_of_Identity: "char_of Identity = CHR 0x00"
  by (simp add: Identity_def char_of_def)

lemma bytes_Buffer_Write:
  "Write bytes_Buffer p s = ((int (length p), None), s\<lparr>log := log s @ [p]\<rparr>)"
  by (simp add: bytes_Buffer_def sink_def)

lemma bytes_Buffer_Closer: "Closer bytes_Buffer = None"
  by (simp add: bytes_Buffer_def sink_def)


subsection \<open>The external encoders over a buffer\<close>

lemma interior_fringe:
  "length p < g \<Longrightarrow>
   interior encode g cap w p n s =
     ((n + int (length p), None), s\<lparr>codec := (codec s)\<lparr>e_buf := p\<rparr>\<rparr>)"
  by (simp add: interior.simps)

lemma interior_one_chunk:
  assumes "0 < g" and "g \<le> length p" and "length p < cap"
  shows "interior encode g cap bytes_Buffer p n s =
    ((n + int (length p), None),
     s\<lparr>log := log s @ [encode (take (length p - length p mod g) p)],
       codec := (codec s)
         \<lparr>e_out := encode_into (encode (take (length p - length p mod g) p)) (e_out (codec s)),
          e_buf := drop (length p - length p mod g) p\<rparr>\<rparr>)"
proof -
  let ?nn = "length p - length p mod g"
  have le: "length p mod g \<le> length p" by (rule mod_less_eq_dividend)
  have "length p mod g < g" using assms(1) by simp
  then have nn: "?nn \<noteq> 0" and rest: "length (drop ?nn p) < g" and "?nn \<le> length p"
    using assms(2) le by auto
  have sum: "int ?nn + int (length p - ?nn) = int (length p)"
    using le by simp
  show ?thesis
    using assms nn sum
    by (subst interior.simps)
       (simp add: Let_def bytes_Buffer_Write interior_fringe [OF rest] add.assoc)
qed

lemma group_Write_fresh:
  assumes "e_err (codec s) = None" and "e_buf (codec s) = []"
    and "0 < g" and "g \<le> length p" and "length p < cap"
  shows "group_Write encode g cap bytes_Buffer p s =
    ((int (length p), None),
     s\<lparr>log := log s @ [encode (take (length p - length p mod g) p)],
       codec := (codec s)
         \<lparr>e_out := encode_into (encode (take (length p - length p mod g) p)) (e_out (codec s)),
          e_buf := drop (length p - length p mod g) p\<rparr>\<rparr>)"
  using assms(1,2) interior_one_chunk [OF assms(3,4,5), of encode 0 s]
  by (simp add: group_Write_def)

lemma group_Close_flush:
  assumes "e_err (codec s) = None" and "e_buf (codec s) \<noteq> []"
  shows "group_Close encode bytes_Buffer s =
    (None, s\<lparr>log := log s @ [encode (e_buf (codec s))],
              codec := \<lparr>e_err = None, e_buf = [],
                         e_out = encode_into (encode (e_buf (codec s))) (e_out (codec s))\<rparr>\<rparr>)"
  using assms by (simp add: group_Close_def bytes_Buffer_Write Let_def)

lemma b32_Close_flush:
  assumes "e_err (codec s) = None" and "e_buf (codec s) \<noteq> []"
  shows "b32_Close encode bytes_Buffer s =
    (None, s\<lparr>log := log s @ [take 8 (encode_into (encode (e_buf (codec s))) (e_out (codec s)))],
              codec := \<lparr>e_err = None, e_buf = [],
                         e_out = encode_into (encode (e_buf (codec s))) (e_out (codec s))\<rparr>\<rparr>)"
  using assms by (simp add: b32_Close_def bytes_Buffer_Write Let_def)

lemma newEncoderWriter_Base64url:
  "newEncoderWriter go_codecs Base64url w s =
     (\<lparr>ew_enc = Base64url, out = w, headerWritten = False,
       processor = Some \<lparr>Write = group_Write (base64_Encode RawURLEncoding) 3 768 w,
                         Closer = Some (group_Close (base64_Encode RawURLEncoding) w)\<rparr>\<rparr>,
      s\<lparr>codec := fresh\<rparr>)"
  by (simp add: newEncoderWriter_def with_processor_def go_codecs_def go_base64_NewEncoder_def
      Encoding_defs)

lemma newEncoderWriter_Base16:
  "newEncoderWriter go_codecs Base16 w s =
     (\<lparr>ew_enc = Base16, out = w, headerWritten = False,
       processor = Some \<lparr>Write = (\<lambda>p. hex_Write w p 0), Closer = None\<rparr>\<rparr>,
      s\<lparr>codec := fresh\<rparr>)"
  by (simp add: newEncoderWriter_def with_processor_def go_codecs_def go_hex_NewEncoder_def
      Encoding_defs)

lemma newEncoderWriter_Base32:
  "newEncoderWriter go_codecs Base32 w s =
     (\<lparr>ew_enc = Base32, out = w, headerWritten = False,
       processor = Some \<lparr>Write = group_Write (b32_Encode base32StdLowerNoPad) 5 640 w,
                         Closer = Some (b32_Close (b32_Encode base32StdLowerNoPad) w)\<rparr>\<rparr>,
      s\<lparr>codec := fresh\<rparr>)"
  by (simp add: newEncoderWriter_def with_processor_def go_codecs_def go_b32_NewEncoder_def
      Encoding_defs)

lemma replicate_small:
  "replicate 1 c = [c]" "replicate 2 c = [c, c]" "replicate 3 c = [c, c, c]"
  "replicate 4 c = [c, c, c, c]"
  by (simp_all add: numeral_eq_Suc)

lemmas base64_eval =
  base64_group_def be_value_def digits_def upt_rec drop_bit_eq_div pad_to_def
  encodeURL_def encodeStd_def replicate_small Let_def

lemma base64url_yes_mani:
  "base64_Encode RawURLEncoding ''yes mani '' = ''eWVzIG1hbmkg''"
  "base64_Encode RawURLEncoding ''!'' = ''IQ''"
  "base64_Encode RawURLEncoding ''yes mani !'' = ''eWVzIG1hbmkgIQ''"
  by (simp_all add: base64_eval)

lemma go_body_Base64url: "go_body Base64url data = base64_Encode RawURLEncoding data"
  by (simp add: go_body_def Encoding_defs)

lemma char_of_Base64url: "char_of Base64url = CHR ''u''"
  unfolding Base64url_def by (rule char_of_char)

text \<open>
  Constructing a writer over the modelled encoders writes nothing to the sink, and so
  does closing the writer as constructed, unless the processor is the sink itself.
\<close>

lemma go_codecs_quiet:
  shows "log (snd (newEncoderWriter go_codecs e w s)) = log s"
    and "e \<noteq> Identity \<Longrightarrow>
         encoderWriter_Close (fst (newEncoderWriter go_codecs e w s))
             (snd (newEncoderWriter go_codecs e w s)) =
           (None, snd (newEncoderWriter go_codecs e w s))"
proof -
  consider
    "e = Identity" | "e = Base16" | "e = Base32" | "e = Base32Upper" | "e = Base32hex"
    | "e = Base32hexUpper" | "e = Base32pad" | "e = Base32padUpper" | "e = Base32hexPad"
    | "e = Base32hexPadUpper" | "e = Base64pad" | "e = Base64urlPad" | "e = Base64url"
    | "e = Base64" | "e \<notin> set streamable"
    by (auto simp add: streamable_def)
  note cases = this
  show "log (snd (newEncoderWriter go_codecs e w s)) = log s"
    by (rule cases)
       (simp_all add: newEncoderWriter_not_streamable,
        simp_all add: newEncoderWriter_def with_processor_def go_codecs_def
          go_hex_NewEncoder_def go_b32_NewEncoder_def go_base64_NewEncoder_def Encoding_defs)
  show "encoderWriter_Close (fst (newEncoderWriter go_codecs e w s))
             (snd (newEncoderWriter go_codecs e w s)) =
           (None, snd (newEncoderWriter go_codecs e w s))" if "e \<noteq> Identity"
    using that
    by (rule_tac cases)
       (simp_all add: newEncoderWriter_not_streamable encoderWriter_Close_def,
        simp_all add: newEncoderWriter_def with_processor_def go_codecs_def
          go_hex_NewEncoder_def go_b32_NewEncoder_def go_base64_NewEncoder_def Encoding_defs
          group_Close_def b32_Close_def fresh_def)
qed

subsection \<open>Construction of a handle\<close>

text \<open>
  C5: \<^verbatim>\<open>NewEncoder\<close> returns an error, and it is \<open>UnsupportedEncoding\<close>, exactly when the
  identifier has no entry in \<^verbatim>\<open>EncodingToStr\<close>; otherwise the error is \<^verbatim>\<open>nil\<close> and the
  handle's \<^verbatim>\<open>Encoding()\<close> is the identifier given.
\<close>

theorem NewEncoder_validates:
  "(snd (NewEncoder base) = Some UnsupportedEncoding \<longleftrightarrow> EncodingToStr base = None) \<and>
   (snd (NewEncoder base) \<noteq> None \<longleftrightarrow> EncodingToStr base = None) \<and>
   (EncodingToStr base \<noteq> None \<longrightarrow>
      snd (NewEncoder base) = None \<and> Encoding (fst (NewEncoder base)) = base)"
  by (simp add: NewEncoder_def Encoding_def split: option.split)

theorem NewEncoder_validates_witness:
  "EncodingToStr Base58BTC \<noteq> None \<and>
   NewEncoder Base58BTC = (\<lparr>enc = Base58BTC\<rparr>, None) \<and>
   EncodingToStr 55 = None \<and>
   NewEncoder 55 = (\<lparr>enc = -1\<rparr>, Some UnsupportedEncoding)"
  using NewEncoder_validates [of Base58BTC] NewEncoder_validates [of 55]
  by (simp add: NewEncoder_def EncodingToStr_def Encodings_table_def Encoding_defs)

subsection \<open>The panicking constructor\<close>

text \<open>
  C7: \<^verbatim>\<open>MustNewEncoder\<close> makes the same lookup in \<^verbatim>\<open>EncodingToStr\<close> as \<^verbatim>\<open>NewEncoder\<close>.
  Where \<^verbatim>\<open>NewEncoder\<close> returns the error \<open>UnsupportedEncoding\<close> it panics, and where
  \<^verbatim>\<open>NewEncoder\<close> returns a handle without error it returns that handle.
\<close>

theorem MustNewEncoder_as_NewEncoder:
  "(EncodingToStr base = None \<longrightarrow>
      MustNewEncoder base = Panics (panic_string ''Unsupported multibase encoding'') \<and>
      snd (NewEncoder base) = Some UnsupportedEncoding) \<and>
   (EncodingToStr base \<noteq> None \<longrightarrow>
      MustNewEncoder base = Returns (fst (NewEncoder base)) \<and>
      snd (NewEncoder base) = None)"
  by (auto simp add: MustNewEncoder_def NewEncoder_def)

theorem MustNewEncoder_as_NewEncoder_witness:
  "EncodingToStr 55 = None \<and>
   MustNewEncoder 55 = Panics (panic_string ''Unsupported multibase encoding'') \<and>
   NewEncoder 55 = (\<lparr>enc = -1\<rparr>, Some UnsupportedEncoding) \<and>
   EncodingToStr Base32 \<noteq> None \<and>
   MustNewEncoder Base32 = Returns \<lparr>enc = Base32\<rparr> \<and>
   NewEncoder Base32 = (\<lparr>enc = Base32\<rparr>, None)"
  using MustNewEncoder_as_NewEncoder [of 55] MustNewEncoder_as_NewEncoder [of Base32]
  by (simp add: NewEncoder_def EncodingToStr_def Encodings_table_def Encoding_defs)

subsection \<open>UTF-8: one scalar value is one rune\<close>

lemma or_low_bits:
  fixes x :: int
  assumes "0 \<le> x" and "x < 2 ^ k"
  shows "push_bit k m OR x = push_bit k m + x"
proof -
  have x: "take_bit k x = x"
    using assms by (simp add: take_bit_int_eq_self)
  have "push_bit k m + take_bit k x = push_bit k m OR take_bit k x"
    by (rule disjunctive_add) (auto simp add: bit_simps)
  then show ?thesis by (simp add: x)
qed

lemma and_maskx: "(x::int) AND maskx = x mod 64"
proof -
  have "x AND mask 6 = x mod 2 ^ 6"
    by (simp only: take_bit_eq_mask [symmetric] take_bit_eq_mod)
  moreover have "maskx = mask 6"
    by (simp add: maskx_def mask_eq_exp_minus_1)
  ultimately show ?thesis by simp
qed

lemma and_mask2: "(x::int) AND mask2 = x mod 32"
proof -
  have "x AND mask 5 = x mod 2 ^ 5"
    by (simp only: take_bit_eq_mask [symmetric] take_bit_eq_mod)
  moreover have "mask2 = mask 5"
    by (simp add: mask2_def mask_eq_exp_minus_1)
  ultimately show ?thesis by simp
qed

lemma and_mask3: "(x::int) AND mask3 = x mod 16"
proof -
  have "x AND mask 4 = x mod 2 ^ 4"
    by (simp only: take_bit_eq_mask [symmetric] take_bit_eq_mod)
  moreover have "mask3 = mask 4"
    by (simp add: mask3_def mask_eq_exp_minus_1)
  ultimately show ?thesis by simp
qed

lemma and_mask4: "(x::int) AND mask4 = x mod 8"
proof -
  have "x AND mask 3 = x mod 2 ^ 3"
    by (simp only: take_bit_eq_mask [symmetric] take_bit_eq_mod)
  moreover have "mask4 = mask 3"
    by (simp add: mask4_def mask_eq_exp_minus_1)
  ultimately show ?thesis by simp
qed

lemma cont_byte: "0 \<le> x \<Longrightarrow> x < 64 \<Longrightarrow> (0x80::int) OR x = 0x80 + x"
  using or_low_bits [of x 6 2] by simp

lemma lead2: "0 \<le> x \<Longrightarrow> x < 32 \<Longrightarrow> (0xC0::int) OR x = 0xC0 + x"
  using or_low_bits [of x 5 6] by simp

lemma lead3: "0 \<le> x \<Longrightarrow> x < 16 \<Longrightarrow> (0xE0::int) OR x = 0xE0 + x"
  using or_low_bits [of x 4 14] by simp

lemma lead4: "0 \<le> x \<Longrightarrow> x < 8 \<Longrightarrow> (0xF0::int) OR x = 0xF0 + x"
  using or_low_bits [of x 3 30] by simp

lemma byte_int: "0 \<le> b \<Longrightarrow> b < 256 \<Longrightarrow> (of_char (char_of (b::int)) :: int) = b"
  by simp

lemma byte_nat: "0 \<le> b \<Longrightarrow> b < 256 \<Longrightarrow> (of_char (char_of (b::int)) :: nat) = nat b"
proof -
  assume "0 \<le> b" "b < 256"
  then have "(of_char (char_of b) :: int) = b" by simp
  then have "nat (of_char (char_of b) :: int) = nat b" by simp
  then show ?thesis by (simp only: nat_of_char)
qed

lemmas utf8_consts =
  utf8_xx_def utf8_as_def utf8_s1_def utf8_s2_def utf8_s3_def utf8_s4_def utf8_s5_def
  utf8_s6_def utf8_s7_def locb_def hicb_def RuneSelf_def acceptRanges_def

lemma RuneCount_one:
  assumes "s \<noteq> []" and "rune_width s 0 = length s"
  shows "RuneCountInString s = 1"
  using assms by (simp add: RuneCountInString_def RuneCount_loop.simps)

lemma byte_nat_bounds:
  assumes "lo \<le> b" and "b \<le> hi" and "0 \<le> lo" and "hi < 256"
  shows "(of_char (char_of (b::int)) :: nat) = nat b"
    and "nat lo \<le> (of_char (char_of b) :: nat)" and "(of_char (char_of b) :: nat) \<le> nat hi"
    and "(of_char (char_of b) :: int) = b"
proof -
  show n: "(of_char (char_of b) :: nat) = nat b"
    using assms by (intro byte_nat) linarith+
  show "nat lo \<le> (of_char (char_of b) :: nat)" "(of_char (char_of b) :: nat) \<le> nat hi"
    unfolding n using assms by linarith+
  show "(of_char (char_of b) :: int) = b"
    using assms by (intro byte_int) linarith+
qed

lemma decode1:
  assumes "0 \<le> r" and "r < 0x80"
  shows "DecodeRuneInString [char_of r] = (r, 1)" and "rune_width [char_of r] 0 = 1"
proof -
  have "r \<le> 0x7F" using assms by simp
  note b = byte_nat_bounds [OF assms(1) this]
  have lt: "(of_char (char_of r) :: nat) < 0x80"
    using b(3) by simp
  have f: "utf8_first (char_of r) = utf8_as"
    using lt by (simp add: utf8_first_def Let_def)
  show "DecodeRuneInString [char_of r] = (r, 1)"
    using b(4) by (simp add: DecodeRuneInString_def Let_def f del: of_char_of)
  show "rune_width [char_of r] 0 = 1"
    using lt by (simp add: rune_width_def Let_def RuneSelf_def)
qed

lemma mod_offset: "0 \<le> b \<Longrightarrow> b < k \<Longrightarrow> (k * q + b) mod k = (b::int)"
  by simp

lemma mod_offsets:
  fixes a b :: int
  shows "0 \<le> b \<Longrightarrow> b < 64 \<Longrightarrow> (0x80 + b) mod 64 = b"
    and "0 \<le> a \<Longrightarrow> a < 32 \<Longrightarrow> (0xC0 + a) mod 32 = a"
    and "0 \<le> a \<Longrightarrow> a < 16 \<Longrightarrow> (0xE0 + a) mod 16 = a"
    and "0 \<le> a \<Longrightarrow> a < 8 \<Longrightarrow> (0xF0 + a) mod 8 = a"
  using mod_offset [of b 64 2] mod_offset [of a 32 6] mod_offset [of a 16 14]
    mod_offset [of a 8 30]
  by simp_all

lemma in_range_nat:
  "lo \<le> (of_char c :: nat) \<Longrightarrow> (of_char c :: nat) \<le> hi \<Longrightarrow>
   \<not> ((of_char c :: nat) < lo \<or> hi < (of_char c :: nat))"
  by simp

lemma Decode_shape2:
  assumes "utf8_first s0 = utf8_s1"
    and "\<not> ((of_char s1 :: nat) < locb \<or> hicb < of_char s1)"
  shows "DecodeRuneInString [s0, s1] =
           (push_bit 6 (of_char s0 AND mask2) OR (of_char s1 AND maskx), 2)"
    and "rune_width [s0, s1] 0 = 2"
proof -
  have hi: "\<not> (of_char s0 :: nat) < RuneSelf"
    using assms(1) utf8_first_ascii [of s0] by (simp add: RuneSelf_def utf8_as_def utf8_s1_def)
  show "DecodeRuneInString [s0, s1] =
           (push_bit 6 (of_char s0 AND mask2) OR (of_char s1 AND maskx), 2)"
    using assms(2)
    by (simp add: DecodeRuneInString_def Let_def assms(1) utf8_as_def utf8_s1_def
        acceptRanges_def)
  show "rune_width [s0, s1] 0 = 2"
    using assms(2) hi
    by (simp add: rune_width_def Let_def assms(1) utf8_xx_def utf8_s1_def acceptRanges_def)
qed

lemma Decode_shape3:
  assumes "utf8_first s0 = x" and "x \<in> {utf8_s2, utf8_s3, utf8_s4}"
    and "\<not> ((of_char s1 :: nat) < fst (acceptRanges (x div 16)) \<or>
            snd (acceptRanges (x div 16)) < of_char s1)"
    and "\<not> ((of_char s2 :: nat) < locb \<or> hicb < of_char s2)"
  shows "DecodeRuneInString [s0, s1, s2] =
           (push_bit 12 (of_char s0 AND mask3) OR push_bit 6 (of_char s1 AND maskx)
              OR (of_char s2 AND maskx), 3)"
    and "rune_width [s0, s1, s2] 0 = 3"
proof -
  have sz: "x mod 8 = 3" "\<not> utf8_as \<le> x" "x \<noteq> utf8_xx"
    using assms(2) by (auto simp add: utf8_as_def utf8_xx_def utf8_s2_def utf8_s3_def utf8_s4_def)
  have hi: "\<not> (of_char s0 :: nat) < RuneSelf"
    using assms(1) sz(2) utf8_first_ascii [of s0] by (auto simp add: RuneSelf_def)
  show "DecodeRuneInString [s0, s1, s2] =
           (push_bit 12 (of_char s0 AND mask3) OR push_bit 6 (of_char s1 AND maskx)
              OR (of_char s2 AND maskx), 3)"
    using assms(3,4)
    by (simp add: DecodeRuneInString_def Let_def assms(1) sz split_beta)
  show "rune_width [s0, s1, s2] 0 = 3"
    using assms(3,4) hi
    by (simp add: rune_width_def Let_def assms(1) sz split_beta)
qed

lemma Decode_shape4:
  assumes "utf8_first s0 = x" and "x \<in> {utf8_s5, utf8_s6, utf8_s7}"
    and "\<not> ((of_char s1 :: nat) < fst (acceptRanges (x div 16)) \<or>
            snd (acceptRanges (x div 16)) < of_char s1)"
    and "\<not> ((of_char s2 :: nat) < locb \<or> hicb < of_char s2)"
    and "\<not> ((of_char s3 :: nat) < locb \<or> hicb < of_char s3)"
  shows "DecodeRuneInString [s0, s1, s2, s3] =
           (push_bit 18 (of_char s0 AND mask4) OR push_bit 12 (of_char s1 AND maskx)
              OR push_bit 6 (of_char s2 AND maskx) OR (of_char s3 AND maskx), 4)"
    and "rune_width [s0, s1, s2, s3] 0 = 4"
proof -
  have sz: "x mod 8 = 4" "\<not> utf8_as \<le> x" "x \<noteq> utf8_xx"
    using assms(2) by (auto simp add: utf8_as_def utf8_xx_def utf8_s5_def utf8_s6_def utf8_s7_def)
  have hi: "\<not> (of_char s0 :: nat) < RuneSelf"
    using assms(1) sz(2) utf8_first_ascii [of s0] by (auto simp add: RuneSelf_def)
  show "DecodeRuneInString [s0, s1, s2, s3] =
           (push_bit 18 (of_char s0 AND mask4) OR push_bit 12 (of_char s1 AND maskx)
              OR push_bit 6 (of_char s2 AND maskx) OR (of_char s3 AND maskx), 4)"
    using assms(3,4,5)
    by (simp add: DecodeRuneInString_def Let_def assms(1) sz split_beta)
  show "rune_width [s0, s1, s2, s3] 0 = 4"
    using assms(3,4,5) hi
    by (simp add: rune_width_def Let_def assms(1) sz split_beta)
qed

lemma cont_in_range:
  assumes "0 \<le> b" and "b < 64"
  shows "\<not> ((of_char (char_of (0x80 + b)) :: nat) < locb \<or> hicb < (of_char (char_of (0x80 + b)) :: nat))"
    and "(of_char (char_of (0x80 + b)) :: int) AND maskx = b"
    and "(of_char (char_of (0x80 + b)) :: nat) = 0x80 + nat b"
proof -
  have "0x80 \<le> 0x80 + b" "0x80 + b \<le> 0xBF"
    using assms by simp_all
  note s = byte_nat_bounds [OF this]
  show "\<not> ((of_char (char_of (0x80 + b)) :: nat) < locb \<or> hicb < (of_char (char_of (0x80 + b)) :: nat))"
    using s(2,3) by (simp add: locb_def hicb_def)
  have "(0x80 + b) mod 64 = b"
    using assms by (simp only: mod_offsets)
  then show "(of_char (char_of (0x80 + b)) :: int) AND maskx = b"
    by (simp only: s(4) and_maskx)
  show "(of_char (char_of (0x80 + b)) :: nat) = 0x80 + nat b"
    using assms by (simp only: s(1))
qed

lemma decode2:
  assumes "2 \<le> a" and "a < 32" and "0 \<le> b" and "b < 64"
  shows "DecodeRuneInString [char_of (0xC0 + a), char_of (0x80 + b)] = (64 * a + b, 2)"
    and "rune_width [char_of (0xC0 + a), char_of (0x80 + b)] 0 = 2"
proof -
  have "0xC2 \<le> 0xC0 + a" "0xC0 + a \<le> 0xDF"
    using assms by simp_all
  note s0 = byte_nat_bounds [OF this]
  have f: "utf8_first (char_of (0xC0 + a)) = utf8_s1"
    using s0(2,3) by (simp add: utf8_first_def Let_def)
  note c1 = cont_in_range [OF assms(3,4)]
  have "(0xC0 + a) mod 32 = a"
    using assms by (intro mod_offsets) simp_all
  then have m0: "(of_char (char_of (0xC0 + a)) :: int) AND mask2 = a"
    by (simp only: s0(4) and_mask2)
  have v: "push_bit 6 a OR b = 64 * a + b"
    using or_low_bits [of b 6 a] assms by (simp add: push_bit_eq_mult)
  show "DecodeRuneInString [char_of (0xC0 + a), char_of (0x80 + b)] = (64 * a + b, 2)"
    by (simp only: Decode_shape2(1) [OF f c1(1)] m0 c1(2) v)
  show "rune_width [char_of (0xC0 + a), char_of (0x80 + b)] 0 = 2"
    by (rule Decode_shape2(2) [OF f c1(1)])
qed

lemma decode3:
  assumes "0 \<le> a" and "a < 16" and "0 \<le> b" and "b < 64" and "0 \<le> c" and "c < 64"
    and "a = 0 \<longrightarrow> 32 \<le> b" and "a = 13 \<longrightarrow> b < 32"
  shows "DecodeRuneInString [char_of (0xE0 + a), char_of (0x80 + b), char_of (0x80 + c)] =
           (4096 * a + 64 * b + c, 3)"
    and "rune_width [char_of (0xE0 + a), char_of (0x80 + b), char_of (0x80 + c)] 0 = 3"
proof -
  let ?x = "if a = 0 then utf8_s2 else if a = 13 then utf8_s4 else utf8_s3"
  have "0xE0 \<le> 0xE0 + a" "0xE0 + a \<le> 0xEF"
    using assms by simp_all
  note s0 = byte_nat_bounds [OF this]
  have n0: "(of_char (char_of (0xE0 + a)) :: nat) = 0xE0 + nat a"
    using assms by (simp only: s0(1))
  have f: "utf8_first (char_of (0xE0 + a)) = ?x"
    using assms(1,2) by (auto simp add: utf8_first_def Let_def n0)
  have x: "?x \<in> {utf8_s2, utf8_s3, utf8_s4}"
    by simp
  note c1 = cont_in_range [OF assms(3,4)] and c2 = cont_in_range [OF assms(5,6)]
  have r1: "\<not> ((of_char (char_of (0x80 + b)) :: nat) < fst (acceptRanges (?x div 16)) \<or>
            snd (acceptRanges (?x div 16)) < (of_char (char_of (0x80 + b)) :: nat))"
    using assms(3,4,7,8) unfolding c1(3)
    by (auto simp add: acceptRanges_def utf8_s2_def utf8_s3_def utf8_s4_def locb_def hicb_def)
  have "(0xE0 + a) mod 16 = a"
    using assms by (intro mod_offsets) simp_all
  then have m0: "(of_char (char_of (0xE0 + a)) :: int) AND mask3 = a"
    by (simp only: s0(4) and_mask3)
  have "push_bit 6 b OR c = 64 * b + c"
    using or_low_bits [of c 6 b] assms by (simp add: push_bit_eq_mult)
  moreover have "push_bit 12 a OR (64 * b + c) = 4096 * a + (64 * b + c)"
    using or_low_bits [of "64 * b + c" 12 a] assms by (simp add: push_bit_eq_mult)
  ultimately have v: "push_bit 12 a OR push_bit 6 b OR c = 4096 * a + 64 * b + c"
    by (simp add: or.assoc)
  show "DecodeRuneInString [char_of (0xE0 + a), char_of (0x80 + b), char_of (0x80 + c)] =
           (4096 * a + 64 * b + c, 3)"
    by (simp only: Decode_shape3(1) [OF f x r1 c2(1)] m0 c1(2) c2(2) v)
  show "rune_width [char_of (0xE0 + a), char_of (0x80 + b), char_of (0x80 + c)] 0 = 3"
    by (rule Decode_shape3(2) [OF f x r1 c2(1)])
qed

lemma decode4:
  assumes "0 \<le> a" and "a < 5" and "0 \<le> b" and "b < 64" and "0 \<le> c" and "c < 64"
    and "0 \<le> d" and "d < 64"
    and "a = 0 \<longrightarrow> 16 \<le> b" and "a = 4 \<longrightarrow> b < 16"
  shows "DecodeRuneInString
           [char_of (0xF0 + a), char_of (0x80 + b), char_of (0x80 + c), char_of (0x80 + d)] =
           (262144 * a + 4096 * b + 64 * c + d, 4)"
    and "rune_width
           [char_of (0xF0 + a), char_of (0x80 + b), char_of (0x80 + c), char_of (0x80 + d)] 0 = 4"
proof -
  let ?x = "if a = 0 then utf8_s5 else if a = 4 then utf8_s7 else utf8_s6"
  have "0xF0 \<le> 0xF0 + a" "0xF0 + a \<le> 0xF4"
    using assms by simp_all
  note s0 = byte_nat_bounds [OF this]
  have n0: "(of_char (char_of (0xF0 + a)) :: nat) = 0xF0 + nat a"
    using assms by (simp only: s0(1))
  have f: "utf8_first (char_of (0xF0 + a)) = ?x"
    using assms(1,2) by (auto simp add: utf8_first_def Let_def n0)
  have x: "?x \<in> {utf8_s5, utf8_s6, utf8_s7}"
    by simp
  note c1 = cont_in_range [OF assms(3,4)] and c2 = cont_in_range [OF assms(5,6)]
    and c3 = cont_in_range [OF assms(7,8)]
  have r1: "\<not> ((of_char (char_of (0x80 + b)) :: nat) < fst (acceptRanges (?x div 16)) \<or>
            snd (acceptRanges (?x div 16)) < (of_char (char_of (0x80 + b)) :: nat))"
    using assms(3,4,9,10) unfolding c1(3)
    by (auto simp add: acceptRanges_def utf8_s5_def utf8_s6_def utf8_s7_def locb_def hicb_def)
  have "(0xF0 + a) mod 8 = a"
    using assms by (intro mod_offsets) simp_all
  then have m0: "(of_char (char_of (0xF0 + a)) :: int) AND mask4 = a"
    by (simp only: s0(4) and_mask4)
  have "push_bit 6 c OR d = 64 * c + d"
    using or_low_bits [of d 6 c] assms by (simp add: push_bit_eq_mult)
  moreover have "push_bit 12 b OR (64 * c + d) = 4096 * b + (64 * c + d)"
    using or_low_bits [of "64 * c + d" 12 b] assms by (simp add: push_bit_eq_mult)
  moreover have "push_bit 18 a OR (4096 * b + (64 * c + d)) =
      262144 * a + (4096 * b + (64 * c + d))"
    using or_low_bits [of "4096 * b + (64 * c + d)" 18 a] assms by (simp add: push_bit_eq_mult)
  ultimately have v: "push_bit 18 a OR push_bit 12 b OR push_bit 6 c OR d =
      262144 * a + 4096 * b + 64 * c + d"
    by (simp add: or.assoc)
  show "DecodeRuneInString
           [char_of (0xF0 + a), char_of (0x80 + b), char_of (0x80 + c), char_of (0x80 + d)] =
           (262144 * a + 4096 * b + 64 * c + d, 4)"
    by (simp only: Decode_shape4(1) [OF f x r1 c2(1) c3(1)] m0 c1(2) c2(2) c3(2) v)
  show "rune_width
           [char_of (0xF0 + a), char_of (0x80 + b), char_of (0x80 + c), char_of (0x80 + d)] 0 = 4"
    by (rule Decode_shape4(2) [OF f x r1 c2(1) c3(1)])
qed

lemma split64:
  fixes r :: int
  assumes "0 \<le> r"
  shows "r = 64 * drop_bit 6 r + r mod 64" and "0 \<le> r mod 64" and "r mod 64 < 64"
    and "0 \<le> drop_bit 6 r"
  using assms by (simp_all add: drop_bit_eq_div)

lemma RuneCount_loop_ge: "n \<le> RuneCount_loop s i n"
proof (induction s i n rule: RuneCount_loop.induct)
  case (1 s i n)
  show ?case
  proof (cases "i < length s")
    case True
    with "1.IH" have "n + 1 \<le> RuneCount_loop s (i + rune_width s i) (n + 1)" by simp
    with True show ?thesis by (subst RuneCount_loop.simps) simp
  next
    case False
    then show ?thesis by (subst RuneCount_loop.simps) simp
  qed
qed

lemma RuneCount_zero_iff: "RuneCountInString s = 0 \<longleftrightarrow> s = []"
proof
  assume z: "RuneCountInString s = 0"
  show "s = []"
  proof (rule ccontr)
    assume "s \<noteq> []"
    then have "RuneCountInString s = RuneCount_loop s (rune_width s 0) 1"
      by (simp add: RuneCountInString_def RuneCount_loop.simps [of s 0 0])
    with RuneCount_loop_ge [of 1 s "rune_width s 0"] z show False by simp
  qed
next
  assume "s = []"
  then show "RuneCountInString s = 0"
    by (simp add: RuneCountInString_def RuneCount_loop.simps)
qed

text \<open>
  The UTF-8 encoding of a Unicode scalar value is one rune for Go, and decodes to the
  value.
\<close>

lemma scalar_round_trip:
  assumes "0 \<le> r" and "r \<le> 0x10FFFF" and "\<not> (0xD800 \<le> r \<and> r \<le> 0xDFFF)"
  shows "RuneCountInString (string_of_rune r) = 1"
    and "fst (DecodeRuneInString (string_of_rune r)) = r"
proof -
  define m1 q1 where "m1 = r mod 64" and "q1 = drop_bit 6 r"
  define m2 q2 where "m2 = q1 mod 64" and "q2 = drop_bit 6 q1"
  define m3 q3 where "m3 = q2 mod 64" and "q3 = drop_bit 6 q2"
  have r: "r = 64 * q1 + m1" "0 \<le> m1" "m1 < 64" "0 \<le> q1"
    using split64 [OF assms(1)] by (simp_all add: m1_def q1_def)
  have q1: "q1 = 64 * q2 + m2" "0 \<le> m2" "m2 < 64" "0 \<le> q2"
    using split64 [OF r(4)] by (simp_all add: m2_def q2_def)
  have q2: "q2 = 64 * q3 + m3" "0 \<le> m3" "m3 < 64" "0 \<le> q3"
    using split64 [OF q1(4)] by (simp_all add: m3_def q3_def)
  have s: "string_of_rune r = rune_bytes r"
    using assms by (auto simp add: string_of_rune_def)
  have b: "r AND maskx = m1" "drop_bit 6 r = q1" "q1 AND maskx = m2"
    "drop_bit 12 r = q2" "q2 AND maskx = m3" "drop_bit 18 r = q3"
    by (simp_all add: and_maskx drop_bit_drop_bit m1_def q1_def m2_def q2_def m3_def q3_def)
  consider (one) "r < 0x80" | (two) "0x80 \<le> r" "r < 0x800"
    | (three) "0x800 \<le> r" "r < 0x10000" | (four) "0x10000 \<le> r"
    by linarith
  then have "RuneCountInString (rune_bytes r) = 1 \<and> fst (DecodeRuneInString (rune_bytes r)) = r"
  proof cases
    case one
    then have "rune_bytes r = [char_of r]"
      by (simp add: rune_bytes_def)
    then show ?thesis
      using decode1 [OF assms(1) one] by (simp add: RuneCount_one)
  next
    case two
    have a: "2 \<le> q1" "q1 < 32"
      using two r by linarith+
    have "rune_bytes r = [char_of (0xC0 + q1), char_of (0x80 + m1)]"
      using two a r(2,3) by (simp add: rune_bytes_def b lead2 cont_byte)
    then show ?thesis
      using decode2 [OF a r(2,3)] r(1) by (simp add: RuneCount_one)
  next
    case three
    have a: "0 \<le> q2" "q2 < 16" "q2 = 0 \<longrightarrow> 32 \<le> m2" "q2 = 13 \<longrightarrow> m2 < 32"
      using three assms(3) r q1 by linarith+
    have "rune_bytes r = [char_of (0xE0 + q2), char_of (0x80 + m2), char_of (0x80 + m1)]"
      using three a(1,2) q1(2,3) r(2,3) by (simp add: rune_bytes_def b lead3 cont_byte)
    then show ?thesis
      using decode3 [OF a(1,2) q1(2,3) r(2,3) a(3,4)] r(1) q1(1) by (simp add: RuneCount_one)
  next
    case four
    have a: "0 \<le> q3" "q3 < 5" "q3 = 0 \<longrightarrow> 16 \<le> m3" "q3 = 4 \<longrightarrow> m3 < 16"
      using four assms(2) r q1 q2 by linarith+
    have "rune_bytes r =
        [char_of (0xF0 + q3), char_of (0x80 + m3), char_of (0x80 + m2), char_of (0x80 + m1)]"
      using four a(1,2) q2(2,3) q1(2,3) r(2,3) by (simp add: rune_bytes_def b lead4 cont_byte)
    then show ?thesis
      using decode4 [OF a(1,2) q2(2,3) q1(2,3) r(2,3) a(3,4)] r(1) q1(1) q2(1)
      by (simp add: RuneCount_one)
  qed
  then show "RuneCountInString (string_of_rune r) = 1"
    and "fst (DecodeRuneInString (string_of_rune r)) = r"
    by (simp_all add: s)
qed

subsection \<open>Resolution by name or by tag\<close>

lemmas EncoderByName_eval =
  EncoderByName_def RuneCountInString_def RuneCount_loop.simps rune_width_def RuneSelf_def
  DecodeRuneInString_def utf8_first_def utf8_as_def Let_def
  EncodingToStr_def Encodings_def Encodings_table_def Encoding_defs

text \<open>
  C4: \<^verbatim>\<open>EncoderByName\<close> fails with \<open>EmptyEncodingName\<close> on the empty string, the only
  string of no rune.  On a string that \<^verbatim>\<open>utf8.RuneCountInString\<close> counts as one rune it
  looks the decoded rune up as a tag in \<^verbatim>\<open>EncodingToStr\<close>; in particular the UTF-8
  encoding of any Unicode scalar value \<open>r\<close> is resolved as the tag \<open>r\<close>.  On a string of
  two runes or more it looks the string up as a name in \<^verbatim>\<open>Encodings\<close>.  It fails with
  \<open>UnsupportedEncoding\<close> when the lookup fails and otherwise returns the handle of the
  identifier found.  The strings \<open>b\<close> and \<open>base32\<close> give handles with the same identifier.
\<close>

theorem EncoderByName_resolution:
  "EncoderByName [] = (\<lparr>enc = -1\<rparr>, Some EmptyEncodingName) \<and>
   (RuneCountInString str = 0 \<longleftrightarrow> str = []) \<and>
   (RuneCountInString str = 1 \<longrightarrow>
      EncoderByName str =
        (case EncodingToStr (fst (DecodeRuneInString str)) of
           None \<Rightarrow> (\<lparr>enc = -1\<rparr>, Some UnsupportedEncoding)
         | Some _ \<Rightarrow> (\<lparr>enc = fst (DecodeRuneInString str)\<rparr>, None))) \<and>
   (0 \<le> r \<and> r \<le> 0x10FFFF \<and> \<not> (0xD800 \<le> r \<and> r \<le> 0xDFFF) \<longrightarrow>
      EncoderByName (string_of_rune r) =
        (case EncodingToStr r of
           None \<Rightarrow> (\<lparr>enc = -1\<rparr>, Some UnsupportedEncoding)
         | Some _ \<Rightarrow> (\<lparr>enc = r\<rparr>, None))) \<and>
   (2 \<le> RuneCountInString str \<longrightarrow>
      EncoderByName str =
        (case Encodings str of
           None \<Rightarrow> (\<lparr>enc = -1\<rparr>, Some UnsupportedEncoding)
         | Some base \<Rightarrow> (\<lparr>enc = base\<rparr>, None))) \<and>
   EncoderByName ''b'' = (\<lparr>enc = Base32\<rparr>, None) \<and>
   EncoderByName ''base32'' = (\<lparr>enc = Base32\<rparr>, None)"
proof -
  have empty: "EncoderByName [] = (\<lparr>enc = -1\<rparr>, Some EmptyEncodingName)"
    by (simp add: EncoderByName_def)
  have tag: "EncoderByName s =
        (case EncodingToStr (fst (DecodeRuneInString s)) of
           None \<Rightarrow> (\<lparr>enc = -1\<rparr>, Some UnsupportedEncoding)
         | Some _ \<Rightarrow> (\<lparr>enc = fst (DecodeRuneInString s)\<rparr>, None))"
    if "RuneCountInString s = 1" for s
  proof -
    from that RuneCount_zero_iff [of s] have "s \<noteq> []" by auto
    with that show ?thesis
      by (auto simp add: EncoderByName_def split: prod.splits option.splits)
  qed
  have scalar: "0 \<le> r \<and> r \<le> 0x10FFFF \<and> \<not> (0xD800 \<le> r \<and> r \<le> 0xDFFF) \<longrightarrow>
      EncoderByName (string_of_rune r) =
        (case EncodingToStr r of
           None \<Rightarrow> (\<lparr>enc = -1\<rparr>, Some UnsupportedEncoding)
         | Some _ \<Rightarrow> (\<lparr>enc = r\<rparr>, None))"
  proof
    assume "0 \<le> r \<and> r \<le> 0x10FFFF \<and> \<not> (0xD800 \<le> r \<and> r \<le> 0xDFFF)"
    then have "RuneCountInString (string_of_rune r) = 1"
      and "fst (DecodeRuneInString (string_of_rune r)) = r"
      by (simp_all add: scalar_round_trip)
    with tag [of "string_of_rune r"] show "EncoderByName (string_of_rune r) =
        (case EncodingToStr r of
           None \<Rightarrow> (\<lparr>enc = -1\<rparr>, Some UnsupportedEncoding)
         | Some _ \<Rightarrow> (\<lparr>enc = r\<rparr>, None))"
      by (simp split: option.splits)
  qed
  have name: "2 \<le> RuneCountInString str \<longrightarrow>
      EncoderByName str =
        (case Encodings str of
           None \<Rightarrow> (\<lparr>enc = -1\<rparr>, Some UnsupportedEncoding)
         | Some base \<Rightarrow> (\<lparr>enc = base\<rparr>, None))"
  proof
    assume two: "2 \<le> RuneCountInString str"
    with RuneCount_zero_iff [of str] have "str \<noteq> []" by auto
    with two show "EncoderByName str =
        (case Encodings str of
           None \<Rightarrow> (\<lparr>enc = -1\<rparr>, Some UnsupportedEncoding)
         | Some base \<Rightarrow> (\<lparr>enc = base\<rparr>, None))"
      by (auto simp add: EncoderByName_def split: prod.splits option.splits)
  qed
  have b: "EncoderByName ''b'' = (\<lparr>enc = Base32\<rparr>, None)"
    by (simp add: EncoderByName_eval)
  have base32: "EncoderByName ''base32'' = (\<lparr>enc = Base32\<rparr>, None)"
    by (simp add: EncoderByName_eval)
  from empty RuneCount_zero_iff [of str] tag [of str] scalar name b base32 show ?thesis
    by blast
qed

theorem EncoderByName_resolution_witness:
  "RuneCountInString ''z'' = 1 \<and> DecodeRuneInString ''z'' = (Base58BTC, 1) \<and>
   EncoderByName ''z'' = (\<lparr>enc = Base58BTC\<rparr>, None) \<and>
   RuneCountInString ''7'' = 1 \<and> EncodingToStr (fst (DecodeRuneInString ''7'')) = None \<and>
   EncoderByName ''7'' = (\<lparr>enc = -1\<rparr>, Some UnsupportedEncoding) \<and>
   (0::int) \<le> 0x1F680 \<and> (0x1F680::int) \<le> 0x10FFFF \<and>
   \<not> ((0xD800::int) \<le> 0x1F680 \<and> (0x1F680::int) \<le> 0xDFFF) \<and>
   map of_char (string_of_rune 0x1F680) = [0xF0, 0x9F, 0x9A, 0x80 :: nat] \<and>
   EncoderByName (string_of_rune 0x1F680) = (\<lparr>enc = Base256Emoji\<rparr>, None) \<and>
   (2::nat) \<le> RuneCountInString ''base58btc'' \<and>
   EncoderByName ''base58btc'' = (\<lparr>enc = Base58BTC\<rparr>, None) \<and>
   (2::nat) \<le> RuneCountInString ''base8'' \<and> Encodings ''base8'' = None \<and>
   EncoderByName ''base8'' = (\<lparr>enc = -1\<rparr>, Some UnsupportedEncoding)"
proof -
  have z: "RuneCountInString ''z'' = 1" "DecodeRuneInString ''z'' = (Base58BTC, 1)"
    "EncodingToStr Base58BTC = Some ''base58btc''"
    by (simp_all add: EncoderByName_eval)
  have seven: "RuneCountInString ''7'' = 1" "EncodingToStr (fst (DecodeRuneInString ''7'')) = None"
    by (simp_all add: EncoderByName_eval)
  have emoji: "EncodingToStr 0x1F680 = Some ''base256emoji''" "Base256Emoji = 0x1F680"
    by (simp_all add: EncodingToStr_def Encodings_table_def Encoding_defs)
  have bytes: "map of_char (string_of_rune 0x1F680) = [0xF0, 0x9F, 0x9A, 0x80 :: nat]"
    by (simp add: string_of_rune_def rune_bytes_def maskx_def drop_bit_eq_div byte_nat)
  have btc: "RuneCountInString ''base58btc'' = 9" "Encodings ''base58btc'' = Some Base58BTC"
    by (simp_all add: EncoderByName_eval)
  have base8: "RuneCountInString ''base8'' = 5" "Encodings ''base8'' = None"
    by (simp_all add: EncoderByName_eval)
  show ?thesis
    using EncoderByName_resolution [of "''z''" 0] EncoderByName_resolution [of "''7''" 0]
      EncoderByName_resolution [of "[]" "0x1F680"]
      EncoderByName_resolution [of "''base58btc''" 0] EncoderByName_resolution [of "''base8''" 0]
      z seven emoji bytes btc base8
    by simp
qed

subsection \<open>Encoding through a validated handle\<close>

text \<open>
  C6: a handle that \<^verbatim>\<open>NewEncoder\<close>, \<^verbatim>\<open>MustNewEncoder\<close> or \<^verbatim>\<open>EncoderByName\<close> returned
  without failure holds a registered identifier, the dispatcher has a codec for it, and
  \<^verbatim>\<open>Encoder.Encode\<close> returns the tag followed by the encoded body, for every buffer.
  For any handle at all, an error of the dispatcher is never returned: the call panics
  with it.
\<close>

theorem validated_Encode_returns:
  "(snd (NewEncoder base) = None \<longrightarrow>
      Encoder_Encode body (fst (NewEncoder base)) data =
        Returns (string_of_rune base @ body base data)) \<and>
   (MustNewEncoder base = Returns p \<longrightarrow>
      Encoder_Encode body p data = Returns (string_of_rune base @ body base data)) \<and>
   (EncoderByName str = (q, None) \<longrightarrow>
      Encoder_Encode body q data = Returns (string_of_rune (enc q) @ body (enc q) data)) \<and>
   (snd (Encode body (enc h) data) = Some err \<longrightarrow>
      Encoder_Encode body h data = Panics (panic_error err))"
proof -
  have new: "snd (NewEncoder base) = None \<longrightarrow>
      Encoder_Encode body (fst (NewEncoder base)) data =
        Returns (string_of_rune base @ body base data)"
    by (auto simp add: NewEncoder_def Encoder_Encode_def Encode_registered split: option.splits)
  have must: "MustNewEncoder base = Returns p \<longrightarrow>
      Encoder_Encode body p data = Returns (string_of_rune base @ body base data)"
    by (auto simp add: MustNewEncoder_def Encoder_Encode_def Encode_registered
        split: option.splits)
  have "EncodingToStr (enc q) \<noteq> None" if "EncoderByName str = (q, None)"
    using that
    by (auto simp add: EncoderByName_def Let_def
        split: if_splits prod.splits option.splits dest: Encodings_registered)
  then have name: "EncoderByName str = (q, None) \<longrightarrow>
      Encoder_Encode body q data = Returns (string_of_rune (enc q) @ body (enc q) data)"
    by (simp add: Encoder_Encode_def Encode_registered)
  have panic: "snd (Encode body (enc h) data) = Some err \<longrightarrow>
      Encoder_Encode body h data = Panics (panic_error err)"
    by (simp add: Encoder_Encode_def split: prod.splits)
  from new must name panic show ?thesis by blast
qed

theorem validated_Encode_returns_witness:
  "NewEncoder Base64url = (\<lparr>enc = Base64url\<rparr>, None) \<and>
   MustNewEncoder Base64url = Returns \<lparr>enc = Base64url\<rparr> \<and>
   EncoderByName ''base64url'' = (\<lparr>enc = Base64url\<rparr>, None) \<and>
   Encoder_Encode go_body \<lparr>enc = Base64url\<rparr> ''yes mani !'' = Returns ''ueWVzIG1hbmkgIQ'' \<and>
   snd (Encode go_body (enc \<lparr>enc = -1\<rparr>) ''yes mani !'') = Some UnsupportedEncoding \<and>
   Encoder_Encode go_body \<lparr>enc = -1\<rparr> ''yes mani !'' = Panics (panic_error UnsupportedEncoding)"
proof -
  have new: "NewEncoder Base64url = (\<lparr>enc = Base64url\<rparr>, None)"
    by (simp add: NewEncoder_def EncodingToStr_def Encodings_table_def Encoding_defs)
  have must: "MustNewEncoder Base64url = Returns \<lparr>enc = Base64url\<rparr>"
    by (simp add: MustNewEncoder_def EncodingToStr_def Encodings_table_def Encoding_defs)
  have name: "EncoderByName ''base64url'' = (\<lparr>enc = Base64url\<rparr>, None)"
    by (simp add: EncoderByName_def RuneCountInString_def RuneCount_loop.simps rune_width_def
        RuneSelf_def Encodings_def Encodings_table_def Encoding_defs)
  have bad: "snd (Encode go_body (enc \<lparr>enc = -1\<rparr>) ''yes mani !'') = Some UnsupportedEncoding"
    by (simp add: Encode_def codec_for_def Encodings_table_def Encoding_defs)
  have tag: "string_of_rune Base64url = ''u''"
    by (simp add: streamable_tag streamable_def char_of_Base64url)
  have body: "go_body Base64url ''yes mani !'' = ''eWVzIG1hbmkgIQ''"
    by (simp only: go_body_Base64url base64url_yes_mani)
  show ?thesis
    using validated_Encode_returns
      [of Base64url go_body "''yes mani !''" "\<lparr>enc = Base64url\<rparr>" "''base64url''"
          "\<lparr>enc = Base64url\<rparr>" "\<lparr>enc = -1\<rparr>" UnsupportedEncoding]
      new must name bad tag body
    by simp
qed

subsection \<open>Rejection of the encodings without an incremental encoder\<close>

text \<open>
  C3: for each of base2, base16upper, base36, base36upper, base58btc, base58flickr and
  base256emoji, constructing the writer changes nothing in the store, and a \<^verbatim>\<open>Write\<close>
  with any payload, in any state of the store, returns \<open>-1\<close> and the error
  \<open>UnsupportedAsWriter\<close> and leaves the store as it was: the sink receives neither the tag
  nor any byte of the payload.
\<close>

theorem non_streamable_Write_rejected:
  "e \<in> set not_streamable \<Longrightarrow>
   snd (newEncoderWriter lib e w s0) = s0 \<and>
   encoderWriter_Write (fst (newEncoderWriter lib e w s0)) p s =
     ((-1, Some UnsupportedAsWriter), s)"
  by (simp add: newEncoderWriter_not_streamable not_streamable_disjoint encoderWriter_Write_def)

theorem non_streamable_Write_rejected_witness:
  "Base58BTC \<in> set not_streamable \<and>
   stream_chunks go_codecs Base58BTC bytes_Buffer [''abc'', ''de''] (empty_store fresh) =
     (([(-1, Some UnsupportedAsWriter)], None), empty_store fresh)"
  using non_streamable_Write_rejected
    [of Base58BTC go_codecs bytes_Buffer "empty_store fresh" "''abc''" "empty_store fresh"]
  by (simp add: not_streamable_def stream_chunks_def encoderWriter_Close_def
      newEncoderWriter_not_streamable not_streamable_disjoint split: prod.splits)

subsection \<open>Closing\<close>

text \<open>
  C8: \<^verbatim>\<open>Close\<close> on a writer whose processor has a \<^verbatim>\<open>Close\<close> method is that method's
  call: its result and its effect on the store are the writer's.  When the processor has
  no \<^verbatim>\<open>Close\<close> method, or the writer has no processor, \<^verbatim>\<open>Close\<close> returns \<^verbatim>\<open>nil\<close> and
  changes nothing.
\<close>

theorem Close_invokes_processor_Close:
  "(processor ew = Some proc \<and> Closer proc = Some close \<longrightarrow>
      encoderWriter_Close ew s = close s) \<and>
   (processor ew = Some proc \<and> Closer proc = None \<longrightarrow>
      encoderWriter_Close ew s = (None, s)) \<and>
   (processor ew = None \<longrightarrow> encoderWriter_Close ew s = (None, s))"
  by (simp add: encoderWriter_Close_def)

theorem Close_invokes_processor_Close_witness:
  "processor (fst (newEncoderWriter go_codecs Base64url bytes_Buffer (empty_store fresh))) =
     Some \<lparr>Write = group_Write (base64_Encode RawURLEncoding) 3 768 bytes_Buffer,
           Closer = Some (group_Close (base64_Encode RawURLEncoding) bytes_Buffer)\<rparr> \<and>
   encoderWriter_Close (fst (newEncoderWriter go_codecs Base64url bytes_Buffer (empty_store fresh)))
       \<lparr>log = [''u''], closed = False, codec = fresh\<lparr>e_buf := ''!''\<rparr>\<rparr> =
     (None, \<lparr>log = [''u'', ''IQ''], closed = False,
            codec = \<lparr>e_err = None, e_buf = [],
                       e_out = encode_into ''IQ'' (e_out fresh)\<rparr>\<rparr>) \<and>
   processor (fst (newEncoderWriter go_codecs Base16 bytes_Buffer (empty_store fresh))) =
     Some \<lparr>Write = (\<lambda>p. hex_Write bytes_Buffer p 0), Closer = None\<rparr> \<and>
   encoderWriter_Close (fst (newEncoderWriter go_codecs Base16 bytes_Buffer (empty_store fresh)))
       \<lparr>log = [''f''], closed = False, codec = fresh\<rparr> =
     (None, \<lparr>log = [''f''], closed = False, codec = fresh\<rparr>) \<and>
   processor (fst (newEncoderWriter go_codecs Base58BTC bytes_Buffer (empty_store fresh))) = None \<and>
   encoderWriter_Close (fst (newEncoderWriter go_codecs Base58BTC bytes_Buffer (empty_store fresh)))
       (empty_store fresh) = (None, empty_store fresh)"
proof -
  let ?b64 = "\<lparr>Write = group_Write (base64_Encode RawURLEncoding) 3 768 bytes_Buffer,
               Closer = Some (group_Close (base64_Encode RawURLEncoding) bytes_Buffer)\<rparr>"
  let ?s = "\<lparr>log = [''u''], closed = False, codec = fresh\<lparr>e_buf := ''!''\<rparr>\<rparr>"
  let ?hex = "\<lparr>Write = (\<lambda>p. hex_Write bytes_Buffer p 0), Closer = None\<rparr>
                :: (enc_state store) io_Writer"
  have p64: "processor (fst (newEncoderWriter go_codecs Base64url bytes_Buffer (empty_store fresh)))
      = Some ?b64"
    by (simp add: newEncoderWriter_Base64url)
  have p16: "processor (fst (newEncoderWriter go_codecs Base16 bytes_Buffer (empty_store fresh)))
      = Some ?hex"
    by (simp add: newEncoderWriter_Base16)
  have p58: "processor (fst (newEncoderWriter go_codecs Base58BTC bytes_Buffer (empty_store fresh)))
      = None"
    by (simp add: newEncoderWriter_not_streamable not_streamable_disjoint not_streamable_def)
  have flush: "group_Close (base64_Encode RawURLEncoding) bytes_Buffer ?s =
      (None, \<lparr>log = [''u'', ''IQ''], closed = False,
            codec = \<lparr>e_err = None, e_buf = [],
                       e_out = encode_into ''IQ'' (e_out fresh)\<rparr>\<rparr>)"
    by (simp add: group_Close_flush base64url_yes_mani fresh_def del: base64_Encode.simps)
  show ?thesis
    using Close_invokes_processor_Close
      [of "fst (newEncoderWriter go_codecs Base64url bytes_Buffer (empty_store fresh))" ?b64
          "group_Close (base64_Encode RawURLEncoding) bytes_Buffer" ?s]
      Close_invokes_processor_Close
      [of "fst (newEncoderWriter go_codecs Base16 bytes_Buffer (empty_store fresh))" ?hex
          undefined "\<lparr>log = [''f''], closed = False, codec = fresh\<rparr>"]
      Close_invokes_processor_Close
      [of "fst (newEncoderWriter go_codecs Base58BTC bytes_Buffer (empty_store fresh))" undefined
          undefined "empty_store fresh"]
      p64 p16 p58 flush
    by simp
qed

subsection \<open>A failing sink\<close>

text \<open>
  C10: take a writer constructed for a streamable encoding and a \<^verbatim>\<open>Write\<close> call in any
  state of the store.  If the sink answers the tag byte with an error, \<^verbatim>\<open>Write\<close> returns
  \<open>0\<close> and that error, and the store is the one the sink's failed call left: the processor
  was not called.
\<close>

theorem failed_tag_write_stops_Write:
  assumes "e \<in> set streamable"
    and "newEncoderWriter lib e w s0 = (ew, s1)"
    and "Write w [char_of e] s = ((k, Some err), s')"
  shows "encoderWriter_Write ew p s = ((0, Some err), s')"
  using Write_as_constructed [OF assms(1), of lib w s0 p s] assms(2,3) by simp

theorem failed_tag_write_stops_Write_witness:
  "Base64url \<in> set streamable \<and>
   Write (broken_sink (ExternalError ''disk full'')) [char_of Base64url] (empty_store fresh) =
     ((0, Some (ExternalError ''disk full'')),
      \<lparr>log = [''u''], closed = False, codec = fresh\<rparr>) \<and>
   encoderWriter_Write
     (fst (newEncoderWriter go_codecs Base64url (broken_sink (ExternalError ''disk full''))
            (empty_store fresh)))
     ''yes mani !'' (empty_store fresh) =
     ((0, Some (ExternalError ''disk full'')),
      \<lparr>log = [''u''], closed = False, codec = fresh\<rparr>)"
proof -
  let ?w = "broken_sink (ExternalError ''disk full'') :: (enc_state store) io_Writer"
  have str: "Base64url \<in> set streamable"
    by (simp add: streamable_def)
  have new: "newEncoderWriter go_codecs Base64url ?w (empty_store fresh) =
      (fst (newEncoderWriter go_codecs Base64url ?w (empty_store fresh)),
       snd (newEncoderWriter go_codecs Base64url ?w (empty_store fresh)))"
    by simp
  note tag = char_of_Base64url
  have fail: "Write ?w [char_of Base64url] (empty_store fresh) =
      ((0, Some (ExternalError ''disk full'')),
       \<lparr>log = [''u''], closed = False, codec = fresh\<rparr>)"
    by (simp add: tag broken_sink_def sink_def empty_store_def)
  show ?thesis
    using failed_tag_write_stops_Write [OF str new fail, of "''yes mani !''"] str fail
    by simp
qed

subsection \<open>The tag on every call\<close>

text \<open>
  C1 does not hold of the code.  Two \<^verbatim>\<open>Write\<close> calls on one identity writer over a
  buffer both succeed, and the sink receives the tag before each payload: the flag
  \<^verbatim>\<open>headerWritten\<close> is set on the receiver's copy only.
\<close>

theorem tag_written_by_every_Write:
  "stream_chunks lib Identity bytes_Buffer [''a'', ''b''] (empty_store c) =
     (([(1, None), (1, None)], None),
      \<lparr>log = [[CHR 0x00], ''a'', [CHR 0x00], ''b''], closed = False, codec = c\<rparr>)"
  unfolding stream_chunks_def newEncoderWriter_Identity
  by (simp add: encoderWriter_Write_def encoderWriter_Close_def bytes_Buffer_Write
      bytes_Buffer_Closer empty_store_def char_of_Identity)

text \<open>
  The encoder of \<^verbatim>\<open>go-base32\<close> at work: one \<^verbatim>\<open>Write\<close> of seven bytes through the writer
  of base32 without padding, then \<^verbatim>\<open>Close\<close>.  \<^verbatim>\<open>Write\<close> sends the tag and the first group,
  \<^verbatim>\<open>Close\<close> sends eight bytes of the output buffer: the four characters of the last two
  bytes and, after them, what the first group left there.
\<close>

lemma go_base32_Close_writes_eight_bytes:
  "fst (stream_chunks go_codecs Base32 bytes_Buffer [''abcdefg''] (empty_store fresh)) =
     ([(7, None)], None) \<and>
   log (snd (stream_chunks go_codecs Base32 bytes_Buffer [''abcdefg''] (empty_store fresh))) =
     [''b'', ''mfrggzdf'', ''mztqgzdf''] \<and>
   go_body Base32 ''abcdefg'' = ''mfrggzdfmztq''"
proof -
  let ?c1 = "fresh\<lparr>e_out := encode_into ''mfrggzdf'' (e_out fresh), e_buf := ''fg''\<rparr>"
  let ?s1 = "\<lparr>log = [''b'', ''mfrggzdf''], closed = False, codec = ?c1\<rparr>"
  have tag: "char_of Base32 = CHR ''b''"
    unfolding Base32_def by (rule char_of_char)
  have first: "b32_Encode base32StdLowerNoPad ''abcde'' = ''mfrggzdf''"
    and last: "b32_Encode base32StdLowerNoPad ''fg'' = ''mztq''"
    and whole: "b32_Encode base32StdLowerNoPad ''abcdefg'' = ''mfrggzdfmztq''"
    by (simp_all add: b32_group_def be_value_def digits_def upt_rec drop_bit_eq_div pad_to_def
        encodeStdLower_def replicate_small Let_def)
  have f: "e_err fresh = None" "e_buf fresh = []"
    by (simp_all add: fresh_def)
  have tail: "take 8 (encode_into ''mztq'' (encode_into ''mfrggzdf'' (e_out fresh))) =
      ''mztqgzdf''"
    by (simp add: encode_into_def fresh_def)
  have w: "group_Write (b32_Encode base32StdLowerNoPad) 5 640 bytes_Buffer ''abcdefg''
        \<lparr>log = [''b''], closed = False, codec = fresh\<rparr> = ((7, None), ?s1)"
    by (subst group_Write_fresh) (simp_all add: fresh_def first del: b32_Encode.simps)
  have c: "b32_Close (b32_Encode base32StdLowerNoPad) bytes_Buffer ?s1 =
      (None,
       \<lparr>log = [''b'', ''mfrggzdf'', ''mztqgzdf''], closed = False,
        codec = \<lparr>e_err = None, e_buf = [],
                  e_out = encode_into ''mztq'' (encode_into ''mfrggzdf'' (e_out fresh))\<rparr>\<rparr>)"
    by (subst b32_Close_flush) (simp_all add: last tail f del: b32_Encode.simps)
  have body: "go_body Base32 ''abcdefg'' = ''mfrggzdfmztq''"
    unfolding whole [symmetric] by (simp add: go_body_def Encoding_defs del: b32_Encode.simps)
  have run: "stream_chunks go_codecs Base32 bytes_Buffer [''abcdefg''] (empty_store fresh) =
      (([(7, None)], None),
       \<lparr>log = [''b'', ''mfrggzdf'', ''mztqgzdf''], closed = False,
        codec = \<lparr>e_err = None, e_buf = [],
                  e_out = encode_into ''mztq'' (encode_into ''mfrggzdf'' (e_out fresh))\<rparr>\<rparr>)"
    unfolding stream_chunks_def newEncoderWriter_Base32
    by (simp add: encoderWriter_Write_def encoderWriter_Close_def bytes_Buffer_Write
        empty_store_def tag w c del: b32_Encode.simps)
  show ?thesis
    by (simp only: run body) simp
qed

lemma go_body_empty: "e \<in> set streamable \<Longrightarrow> go_body e [] = []"
  by (auto simp add: streamable_def go_body_def hex_Encode_def)

subsection \<open>Closing a writer that was never written to\<close>

text \<open>
  C9: construct a writer over a sink and close it, with no \<^verbatim>\<open>Write\<close> call.  With the
  encoders of \<^verbatim>\<open>encoding/hex\<close>, \<^verbatim>\<open>encoding/base64\<close> and \<^verbatim>\<open>go-base32\<close>, for every
  encoding, streamable or not, every sink and every state of the store, the sink has
  received nothing: what it holds is what it held before, so a sink that starts empty ends
  empty.  For the identity encoding and for the encodings without an incremental encoder
  this holds whatever the encoder library is, since neither \<^verbatim>\<open>newEncoderWriter\<close> nor
  \<^verbatim>\<open>Close\<close> calls the sink's \<^verbatim>\<open>Write\<close>.  The whole-buffer \<^verbatim>\<open>Encode\<close> of the empty buffer
  is, for every registered encoding whose codec encodes the empty buffer to the empty
  string, exactly the tag and nothing more, and the tag is not empty; the codecs of the
  streamable encodings are of this kind, and there the tag is the one byte of the encoding.
\<close>

theorem Close_without_Write_emits_nothing:
  "log (snd (stream_chunks go_codecs e (sink reply closing) [] s)) = log s \<and>
   sink_bytes (snd (stream_chunks go_codecs e (sink reply closing) [] (empty_store c))) = [] \<and>
   (e \<notin> set streamable \<or> e = Identity \<longrightarrow>
      log (snd (stream_chunks lib e (sink reply closing) [] t)) = log t) \<and>
   (EncodingToStr e \<noteq> None \<and> body e [] = [] \<longrightarrow>
      Encode body e [] = (string_of_rune e, None) \<and> string_of_rune e \<noteq> []) \<and>
   (e \<in> set streamable \<longrightarrow> Encode go_body e [] = ([char_of e], None))"
proof -
  have model: "log (snd (stream_chunks go_codecs e (sink reply closing) [] s')) = log s'" for s'
  proof (cases "e = Identity")
    case True
    then show ?thesis
      unfolding stream_chunks_def True newEncoderWriter_Identity
      by (cases closing) (simp_all add: encoderWriter_Close_def sink_def)
  next
    case False
    show ?thesis
      using go_codecs_quiet(1) [of e "sink reply closing" s']
        go_codecs_quiet(2) [OF False, of "sink reply closing" s']
      by (simp add: stream_chunks_def case_prod_beta)
  qed
  have empty: "sink_bytes (snd (stream_chunks go_codecs e (sink reply closing) []
      (empty_store c))) = []"
    by (simp add: sink_bytes_def model) (simp add: empty_store_def)
  have any: "log (snd (stream_chunks lib e (sink reply closing) [] t)) = log t"
    if "e \<notin> set streamable \<or> e = Identity"
    using that
  proof
    assume "e \<notin> set streamable"
    then show ?thesis
      by (simp add: stream_chunks_def newEncoderWriter_not_streamable encoderWriter_Close_def)
  next
    assume e: "e = Identity"
    show ?thesis
      unfolding stream_chunks_def e newEncoderWriter_Identity
      by (cases closing) (simp_all add: encoderWriter_Close_def sink_def)
  qed
  have lone: "Encode body e [] = (string_of_rune e, None)"
    if "EncodingToStr e \<noteq> None" and "body e [] = []"
    using Encode_registered [OF that(1), of body "[]"] that(2) by simp
  have str: "Encode go_body e [] = ([char_of e], None)" if "e \<in> set streamable"
    using Encode_registered [OF streamable_registered [OF that], of go_body "[]"]
      go_body_empty [OF that] streamable_tag [OF that]
    by simp
  from model [of s] empty any lone str string_of_rune_not_empty [of e] show ?thesis
    by blast
qed

theorem Close_without_Write_emits_nothing_witness:
  "stream_chunks go_codecs Base32 bytes_Buffer [] (empty_store fresh) =
     (([], None), empty_store fresh) \<and>
   sink_bytes (empty_store fresh) = [] \<and>
   Base32 \<in> set streamable \<and>
   Encode go_body Base32 [] = (''b'', None) \<and>
   Base58BTC \<notin> set streamable \<and>
   stream_chunks go_codecs Base58BTC bytes_Buffer [] (empty_store fresh) =
     (([], None), empty_store fresh) \<and>
   EncodingToStr Base58BTC \<noteq> None \<and>
   Encode (\<lambda>e data. []) Base58BTC [] = (''z'', None)"
proof -
  have tag: "char_of Base32 = CHR ''b''"
    unfolding Base32_def by (rule char_of_char)
  have b32: "stream_chunks go_codecs Base32 bytes_Buffer [] (empty_store fresh) =
      (([], None), empty_store fresh)"
    unfolding stream_chunks_def newEncoderWriter_Base32
    by (simp add: encoderWriter_Close_def b32_Close_def fresh_def empty_store_def)
  have str: "Base32 \<in> set streamable" and not: "Base58BTC \<notin> set streamable"
    by (simp_all add: streamable_def Encoding_defs)
  have b58: "stream_chunks go_codecs Base58BTC bytes_Buffer [] (empty_store fresh) =
      (([], None), empty_store fresh)"
    by (simp add: stream_chunks_def newEncoderWriter_not_streamable [OF not]
        encoderWriter_Close_def)
  have reg: "EncodingToStr Base58BTC \<noteq> None"
    by (simp add: EncodingToStr_def Encodings_table_def Encoding_defs)
  have z: "string_of_rune Base58BTC = ''z''"
    by (simp add: string_of_rune_def rune_bytes_def Base58BTC_def char_of_def)
  show ?thesis
    using Close_without_Write_emits_nothing
        [of Base32 "\<lambda>l p. (int (length p), None)" None "empty_store fresh" fresh go_codecs
            "empty_store fresh" go_body]
      Close_without_Write_emits_nothing
        [of Base58BTC "\<lambda>l p. (int (length p), None)" None "empty_store fresh" fresh go_codecs
            "empty_store fresh" "\<lambda>e data. []"]
      b32 b58 str not reg z tag
    by (simp add: sink_bytes_def empty_store_def)
qed

subsection \<open>Chunks against the whole buffer\<close>

text \<open>
  C2 does not hold of the code.  The buffer \<open>ab\<close> written as the chunks \<open>a\<close> and \<open>b\<close>
  through one identity writer over a buffer, and the writer closed: every call succeeds
  and the sink holds the bytes \<open>00 61 00 62\<close>, the tag before each chunk, where the
  whole-buffer \<^verbatim>\<open>Encode\<close> of \<open>ab\<close> returns \<open>00 61 62\<close>.  The flag \<^verbatim>\<open>headerWritten\<close> that
  \<^verbatim>\<open>Write\<close> sets to write the tag once is set on the receiver's copy only.
\<close>

theorem chunked_Write_differs_from_Encode:
  "stream_chunks lib Identity bytes_Buffer [''a'', ''b''] (empty_store c) =
     (([(1, None), (1, None)], None),
      \<lparr>log = [[CHR 0x00], ''a'', [CHR 0x00], ''b''], closed = False, codec = c\<rparr>) \<and>
   sink_bytes (snd (stream_chunks lib Identity bytes_Buffer [''a'', ''b''] (empty_store c))) =
     [CHR 0x00, CHR ''a'', CHR 0x00, CHR ''b''] \<and>
   Encode go_body Identity (concat [''a'', ''b'']) = ([CHR 0x00, CHR ''a'', CHR ''b''], None) \<and>
   sink_bytes (snd (stream_chunks lib Identity bytes_Buffer [''a'', ''b''] (empty_store c))) \<noteq>
     fst (Encode go_body Identity (concat [''a'', ''b'']))"
proof -
  have run: "stream_chunks lib Identity bytes_Buffer [''a'', ''b''] (empty_store c) =
      (([(1, None), (1, None)], None),
       \<lparr>log = [[CHR 0x00], ''a'', [CHR 0x00], ''b''], closed = False, codec = c\<rparr>)"
    unfolding stream_chunks_def newEncoderWriter_Identity
    by (simp add: encoderWriter_Write_def encoderWriter_Close_def bytes_Buffer_Write
        bytes_Buffer_Closer empty_store_def char_of_Identity)
  have id: "Identity \<in> set streamable"
    by (simp add: streamable_def)
  have whole: "Encode go_body Identity (concat [''a'', ''b'']) =
      ([CHR 0x00, CHR ''a'', CHR ''b''], None)"
    using Encode_registered [OF streamable_registered [OF id], of go_body "concat [''a'', ''b'']"]
      streamable_tag [OF id]
    by (simp add: go_body_def char_of_Identity)
  show ?thesis
    by (simp only: run whole) (simp add: sink_bytes_def)
qed


end
